theory Spec2Isabelle
  imports Complex_Main
begin

section \<open>Python values, dictionaries and errors\<close>

text \<open>
  The generator \<^verbatim>\<open>generate_split_receipt_pdf\<close> reads its receipts and line items
  from Python dictionaries with string keys. The values the data model gives them are
  integers (amounts in cents, quantities) and strings, so a value is one of the two, and
  a dictionary is a map from keys to values. A Python \<^verbatim>\<open>int\<close> is an unbounded
  \<^typ>\<open>int\<close>. A Python \<^verbatim>\<open>str\<close> is a \<^typ>\<open>string\<close>, one \<^typ>\<open>char\<close> for each
  character, so that slicing and the substring test count characters as Python does; the
  strings covered are those whose characters fit a \<^typ>\<open>char\<close> (code points below 256).
  A field of the wrong type is a value of the other kind: the operations below raise
  \<^verbatim>\<open>TypeError\<close> on it where Python does.
\<close>

datatype pyval = PInt int | PStr string

type_synonym pydict = "string \<rightharpoonup> pyval"

datatype error =
  TypeError | ValueError | ZeroDivisionError | OverflowError | IOError | RenderError

text \<open>Sequencing of steps that may raise: the first error ends the computation.\<close>

definition and_then :: "error + 'a \<Rightarrow> ('a \<Rightarrow> error + 'b) \<Rightarrow> error + 'b" where
  "and_then m f = (case m of Inl e \<Rightarrow> Inl e | Inr v \<Rightarrow> f v)"

text \<open>\<^verbatim>\<open>d.get(key, default)\<close>\<close>

definition dict_get :: "pydict \<Rightarrow> string \<Rightarrow> pyval \<Rightarrow> pyval" where
  "dict_get d k dflt = (case d k of None \<Rightarrow> dflt | Some v \<Rightarrow> v)"

section \<open>Floating-point division and two-decimal formatting\<close>

text \<open>
  Every amount is rendered by \<^verbatim>\<open>f"${(cents / 100):.2f}"\<close>. The division is Python's
  true division of two integers: its result is the IEEE 754 binary64 number nearest to
  the exact quotient (ties to even), and it raises \<^verbatim>\<open>OverflowError\<close> when that number
  is not finite. A finite double is represented here by its exact rational value.
\<close>

text \<open>\<^verbatim>\<open>int.bit_length()\<close> of a positive integer (0 for the others).\<close>

function bit_length :: "int \<Rightarrow> nat" where
  "bit_length n = (if n \<le> 0 then 0 else Suc (bit_length (n div 2)))"
  by pat_completeness auto
termination
  by (relation "measure nat") auto

declare bit_length.simps [simp del]

text \<open>The binary exponent of a positive rational \<open>x\<close>: the \<open>k\<close> with \<open>2 powi k \<le> x < 2 powi (k + 1)\<close>.\<close>

definition ilog2 :: "rat \<Rightarrow> int" where
  "ilog2 x = (let (p, q) = quotient_of x;
                  k = int (bit_length p) - int (bit_length q)
              in if 2 powi k \<le> x then k else k - 1)"

text \<open>Rounding to the nearest integer, ties to the even one.\<close>

definition round_half_even :: "rat \<Rightarrow> int" where
  "round_half_even x =
     (let f = \<lfloor>x\<rfloor>; r = x - of_int f
      in if r < 1 / 2 then f else if 1 / 2 < r then f + 1 else if even f then f else f + 1)"

text \<open>
  The nearest number with a 53-bit significand (and exponent no smaller than that of the
  subnormal doubles), ties to even; the exponent range is not bounded above here.
\<close>

definition round_to_double :: "rat \<Rightarrow> rat" where
  "round_to_double x =
     (if x = 0 then 0
      else let e = max (ilog2 \<bar>x\<bar> - 52) (- 1074)
           in of_int (round_half_even (x / 2 powi e)) * 2 powi e)"

text \<open>\<^verbatim>\<open>a / b\<close> on two Python integers.\<close>

definition true_div :: "int \<Rightarrow> int \<Rightarrow> error + rat" where
  "true_div a b =
     (if b = 0 then Inl ZeroDivisionError
      else let q = round_to_double (of_int a / of_int b)
           in if 2 ^ 1024 \<le> \<bar>q\<bar> then Inl OverflowError else Inr q)"

text \<open>Decimal digits: \<^verbatim>\<open>str(n)\<close> for a natural number, and for any integer.\<close>

definition digit_char :: "int \<Rightarrow> char" where
  "digit_char d = ''0123456789'' ! nat d"

function digits :: "int \<Rightarrow> string" where
  "digits n = (if n < 10 then [digit_char n] else digits (n div 10) @ [digit_char (n mod 10)])"
  by pat_completeness auto
termination
  by (relation "measure nat") auto

declare digits.simps [simp del]

definition str_int :: "int \<Rightarrow> string" where
  "str_int n = (if n < 0 then ''-'' @ digits (- n) else digits n)"

text \<open>
  \<^verbatim>\<open>format(q, ".2f")\<close>: the double is rounded (correctly, ties to even) to a whole
  number of hundredths, printed with all its integer digits and exactly two decimals.
\<close>

definition format_2f :: "rat \<Rightarrow> string" where
  "format_2f q =
     (let c = round_half_even (\<bar>q\<bar> * 100)
      in (if q < 0 then ''-'' else '''') @ digits (c div 100) @ ''.''
           @ [digit_char (c mod 100 div 10), digit_char (c mod 10)])"

text \<open>\<^verbatim>\<open>f"${(v / 100):.2f}"\<close>; dividing a string raises \<^verbatim>\<open>TypeError\<close>.\<close>

definition dollars :: "pyval \<Rightarrow> error + string" where
  "dollars v =
     (case v of
        PStr s \<Rightarrow> Inl TypeError
      | PInt n \<Rightarrow> and_then (true_div n 100) (\<lambda>q. Inr (''$'' @ format_2f q)))"

section \<open>String operations\<close>

text \<open>
  \<^verbatim>\<open>str(v)\<close>, as \<^verbatim>\<open>str()\<close> and an f-string placeholder apply it. A string is
  returned as it is. The interpreter limits the decimal conversion of an integer: when
  the integer has more digits than \<^verbatim>\<open>sys.get_int_max_str_digits()\<close>, which is 4300
  unless the interpreter is configured otherwise, the conversion raises
  \<^verbatim>\<open>ValueError\<close>. The sign does not count as a digit.
\<close>

definition int_max_str_digits :: nat where
  "int_max_str_digits = 4300"

definition py_str :: "pyval \<Rightarrow> error + string" where
  "py_str v =
     (case v of
        PStr s \<Rightarrow> Inr s
      | PInt n \<Rightarrow>
          if int_max_str_digits < length (digits \<bar>n\<bar>) then Inl ValueError
          else Inr (str_int n))"

text \<open>\<^verbatim>\<open>v[:k]\<close>; an integer is not subscriptable.\<close>

definition slice_to :: "nat \<Rightarrow> pyval \<Rightarrow> error + string" where
  "slice_to k v = (case v of PStr s \<Rightarrow> Inr (take k s) | PInt n \<Rightarrow> Inl TypeError)"

text \<open>\<^verbatim>\<open>s.startswith(p)\<close> and the substring test \<^verbatim>\<open>sub in s\<close> on strings.\<close>

fun starts_with :: "string \<Rightarrow> string \<Rightarrow> bool" where
  "starts_with [] s = True"
| "starts_with (p # ps) [] = False"
| "starts_with (p # ps) (c # cs) = (p = c \<and> starts_with ps cs)"

fun str_contains :: "string \<Rightarrow> string \<Rightarrow> bool" where
  "str_contains sub [] = (sub = [])"
| "str_contains sub (c # cs) = (starts_with sub (c # cs) \<or> str_contains sub cs)"

text \<open>\<^verbatim>\<open>sub in v\<close>; an integer on the right raises \<^verbatim>\<open>TypeError\<close>.\<close>

definition py_in :: "string \<Rightarrow> pyval \<Rightarrow> error + bool" where
  "py_in sub v = (case v of PStr s \<Rightarrow> Inr (str_contains sub s) | PInt n \<Rightarrow> Inl TypeError)"

text \<open>\<^verbatim>\<open>a + b\<close>: integer addition, string concatenation, \<^verbatim>\<open>TypeError\<close> when mixed.\<close>

fun py_add :: "pyval \<Rightarrow> pyval \<Rightarrow> error + pyval" where
  "py_add (PInt a) (PInt b) = Inr (PInt (a + b))"
| "py_add (PStr a) (PStr b) = Inr (PStr (a @ b))"
| "py_add (PInt a) (PStr b) = Inl TypeError"
| "py_add (PStr a) (PInt b) = Inl TypeError"

section \<open>The document: layout blocks\<close>

text \<open>
  The story handed to the layout engine is a list of flowables. A spacer keeps its height
  and a table its column widths in hundredths of an inch. The three paragraph styles and
  the table styles of the source are constants of the code; the two item tables differ
  in the colours of their header row and grid, which the item-table style carries. A
  table keeps its cells as the Python values put into it.
\<close>

datatype pstyle = title_style | heading_style | body_style

datatype tstyle =
    original_table_style
  | items_table_style string string
  | summary_table_style

datatype flowable =
    Paragraph string pstyle
  | Spacer nat
  | Table "pyval list list" "nat list" tstyle

text \<open>
  \<^verbatim>\<open>SimpleDocTemplate(output_path, pagesize=letter, ...Margin=0.75*inch)\<close>: the page
  size and the four margins are fixed, the file name is the argument.
\<close>

datatype doc_template = SimpleDocTemplate string

text \<open>The two literals of the source outside ASCII, as their UTF-8 encodings.\<close>

definition em_dash :: string where
  "em_dash = [CHR 0xE2, CHR 0x80, CHR 0x94]"

definition check_mark :: string where
  "check_mark = [CHR 0xE2, CHR 0x9C, CHR 0x85]"

section \<open>The generator\<close>

text \<open>
  What the function takes from its environment: the wall clock, already formatted by
  \<^verbatim>\<open>datetime.now().strftime('%B %d, %Y at %I:%M %p')\<close>, the layout library, which
  is not code of this repository, and the standard output. All the library does with the
  blocks (reading the markup of the paragraphs, laying the story out, writing the file at
  the path of the template) is the one function \<open>build\<close>, for
  \<^verbatim>\<open>doc.build(story)\<close>: it returns the error the library raises, or \<open>None\<close> when
  the file is written. The library reads the markup of a paragraph when the paragraph is
  constructed, so on a paragraph it refuses the code raises before the steps that follow,
  where the model runs them first: the call raises in both, and the error is the
  library's unless one of those later steps raises too. Writing a line to the standard
  output is \<open>print\<close>: it returns the error raised (an output stream whose encoding has
  no check mark raises one), or \<open>None\<close> when the line is written.
\<close>

record environment =
  now :: string
  build :: "doc_template \<Rightarrow> flowable list \<Rightarrow> error option"
  print :: "string \<Rightarrow> error option"

definition purpose_text :: string where
  \<open>purpose_text =
     ''\<newline>    <para alignment="center" spaceBefore="12" spaceAfter="12">'' @
     ''\<newline>    <b>Purpose:</b> This document certifies that a single receipt was split into two separate '' @
     ''\<newline>    expense entries for proper tax categorization as required by CRA guidelines.'' @
     ''\<newline>    </para>'' @
     ''\<newline>    ''\<close>

definition compliance_note :: string where
  \<open>compliance_note =
     ''\<newline>    <para alignment="left" fontSize="9" textColor="#6b7280" spaceBefore="12">'' @
     ''\<newline>    <b>CRA Compliance:</b> This split was performed to ensure proper categorization of expenses '' @
     ''\<newline>    according to Canada Revenue Agency (CRA) guidelines. Each receipt maintains its connection '' @
     ''\<newline>    to the original transaction while allowing for accurate tax treatment based on the nature '' @
     ''\<newline>    of each expense. Both receipts reference the same source document for audit purposes.'' @
     ''\<newline>    </para>'' @
     ''\<newline>    ''\<close>

text \<open>The rows of the ORIGINAL RECEIPT table.\<close>

definition original_data :: "pydict \<Rightarrow> error + pyval list list" where
  "original_data original_receipt =
     and_then (dollars (dict_get original_receipt ''total_cents'' (PInt 0))) (\<lambda>total.
     and_then (slice_to 8 (dict_get original_receipt ''id'' (PStr ''''))) (\<lambda>rid.
     Inr [[PStr ''Vendor:'', dict_get original_receipt ''vendor'' (PStr ''Unknown'')],
          [PStr ''Date:'', dict_get original_receipt ''receipt_date'' (PStr ''Not specified'')],
          [PStr ''Original Total:'', PStr (total @ '' CAD'')],
          [PStr ''Receipt ID:'', PStr (rid @ ''...'')]]))"

text \<open>
  One row of an item table, its four cells evaluated from left to right, and the loop that
  appends a row for each item.
\<close>

definition item_row :: "pydict \<Rightarrow> error + pyval list" where
  "item_row item =
     (let description = dict_get item ''description'' (PStr '''') in
      and_then (py_str (dict_get item ''quantity'' (PInt 1))) (\<lambda>quantity.
      and_then (dollars (dict_get item ''unit_price_cents'' (PInt 0))) (\<lambda>unit_price.
      and_then (dollars (dict_get item ''total_cents'' (PInt 0))) (\<lambda>total.
      Inr [description, PStr quantity, PStr unit_price, PStr total]))))"

fun append_items :: "pyval list list \<Rightarrow> pydict list \<Rightarrow> error + pyval list list" where
  "append_items items_data [] = Inr items_data"
| "append_items items_data (item # items) =
     and_then (item_row item) (\<lambda>row. append_items (items_data @ [row]) items)"

text \<open>
  \<^verbatim>\<open>if items: ... story.append(items_table)\<close>: the blocks an item list adds to the
  story, none for the empty list.
\<close>

definition items_table :: "tstyle \<Rightarrow> pydict list \<Rightarrow> error + flowable list" where
  "items_table style items =
     (if items \<noteq> [] then
        and_then
          (append_items
             [[PStr ''Description'', PStr ''Qty'', PStr ''Unit Price'', PStr ''Total'']] items)
          (\<lambda>items_data. Inr [Table items_data [300, 75, 100, 100] style])
      else Inr [])"

text \<open>\<^verbatim>\<open>"50%" if "Meal" in category else "100%"\<close>\<close>

definition deductible :: "pyval \<Rightarrow> error + string" where
  "deductible category =
     and_then (py_in ''Meal'' category) (\<lambda>meal. Inr (if meal then ''50%'' else ''100%''))"

text \<open>The rows of the SUMMARY table.\<close>

definition summary_data :: "pyval \<Rightarrow> pydict \<Rightarrow> pyval \<Rightarrow> string \<Rightarrow> error + pyval list list" where
  "summary_data receipt_a_total new_receipt category deductible_text =
     and_then (dollars receipt_a_total) (\<lambda>a.
     and_then (dollars (dict_get new_receipt ''total_cents'' (PInt 0))) (\<lambda>b.
     and_then (py_add receipt_a_total (dict_get new_receipt ''total_cents'' (PInt 0))) (\<lambda>sum.
     and_then (dollars sum) (\<lambda>total.
     Inr [[PStr '''', PStr ''Receipt A'', PStr ''Receipt B'', PStr ''Total''],
          [PStr ''Subtotal + Tax'', PStr a, PStr b, PStr total],
          [PStr ''Tax Category'', PStr ''Office Supplies'', category, PStr em_dash],
          [PStr ''Deductibility'', PStr ''100%'', PStr deductible_text, PStr em_dash]]))))"

definition footer_text :: "pydict \<Rightarrow> pydict \<Rightarrow> error + string" where
  \<open>footer_text original_receipt new_receipt =
     and_then (slice_to 16 (dict_get original_receipt ''id'' (PStr ''''))) (\<lambda>original_id.
     and_then (slice_to 16 (dict_get new_receipt ''id'' (PStr ''''))) (\<lambda>new_id.
     Inr (''\<newline>    <para alignment="center" fontSize="8" textColor="#9ca3af">'' @
          ''\<newline>    This document was automatically generated by the Receipt Management System.<br/>'' @
          ''\<newline>    Original Receipt ID: '' @ original_id @ ''...<br/>'' @
          ''\<newline>    New Receipt ID: '' @ new_id @ ''...'' @
          ''\<newline>    </para>'' @
          ''\<newline>    '')))\<close>

text \<open>
  The blocks of the story in the order the source appends them, from the pieces computed
  on the way: the rows of the first table, the blocks of the two item tables (none or
  one each), the formatted totals, the text of the category with its deductibility, the
  rows of the summary table and the footer.
\<close>

definition blocks ::
  "string \<Rightarrow> pyval list list \<Rightarrow> flowable list \<Rightarrow> string \<Rightarrow> string \<Rightarrow> string \<Rightarrow> flowable list
     \<Rightarrow> string \<Rightarrow> pyval list list \<Rightarrow> string \<Rightarrow> flowable list" where
  "blocks now_text original_rows table_a total_a category_text deductible_text table_b total_b
       summary_rows footer =
     [Paragraph ''SPLIT RECEIPT DOCUMENTATION'' title_style,
      Paragraph (''Generated: '' @ now_text) body_style,
      Spacer 30,
      Paragraph purpose_text body_style,
      Spacer 20,
      Paragraph ''ORIGINAL RECEIPT'' heading_style,
      Table original_rows [150, 450] original_table_style,
      Spacer 30,
      Paragraph ''SPLIT INTO TWO RECEIPTS'' heading_style,
      Spacer 15,
      Paragraph ''<b>Receipt A: Office Supplies (100% Deductible)</b>'' body_style,
      Spacer 10]
     @ table_a @
     [Spacer 10,
      Paragraph (''<b>Receipt A Total: '' @ total_a @ '' CAD</b>'') body_style,
      Paragraph ''Tax Treatment: 100% deductible business expense'' body_style,
      Spacer 25,
      Paragraph (''<b>Receipt B: '' @ category_text @ '' ('' @ deductible_text
                   @ '' Deductible)</b>'') body_style,
      Spacer 10]
     @ table_b @
     [Spacer 10,
      Paragraph (''<b>Receipt B Total: '' @ total_b @ '' CAD</b>'') body_style,
      Paragraph (''Tax Treatment: '' @ deductible_text @ '' deductible (''
                   @ category_text @ '')'') body_style,
      Spacer 30,
      Paragraph ''SUMMARY'' heading_style,
      Table summary_rows [200, 150, 150, 150] summary_table_style,
      Spacer 30,
      Paragraph compliance_note body_style,
      Spacer 40,
      Paragraph footer body_style]"

text \<open>
  The story: the steps that can raise, in the order the source runs them, then the
  blocks. A step that raises ends the call before anything is handed to the engine. The
  placeholder \<^verbatim>\<open>{category}\<close> is converted to text for the label of Receipt B; the
  line of its tax treatment converts the same value again, to the same text.
\<close>

definition story ::
  "string \<Rightarrow> pydict \<Rightarrow> pydict \<Rightarrow> pydict list \<Rightarrow> pydict list \<Rightarrow> error + flowable list" where
  "story now_text original_receipt new_receipt original_items new_items =
     and_then (original_data original_receipt) (\<lambda>original_rows.
     and_then (items_table (items_table_style ''#f3f4f6'' ''#e5e7eb'') original_items) (\<lambda>table_a.
     let receipt_a_total = dict_get original_receipt ''total_cents'' (PInt 0) in
     and_then (dollars receipt_a_total) (\<lambda>total_a.
     let category = dict_get new_receipt ''suggested_category'' (PStr ''Other Expenses'') in
     and_then (deductible category) (\<lambda>deductible_text.
     and_then (py_str category) (\<lambda>category_text.
     and_then (items_table (items_table_style ''#fef3c7'' ''#fbbf24'') new_items) (\<lambda>table_b.
     and_then (dollars (dict_get new_receipt ''total_cents'' (PInt 0))) (\<lambda>total_b.
     and_then (summary_data receipt_a_total new_receipt category deductible_text) (\<lambda>summary_rows.
     and_then (footer_text original_receipt new_receipt) (\<lambda>footer.
     Inr (blocks now_text original_rows table_a total_a category_text deductible_text table_b
            total_b summary_rows footer))))))))))"

text \<open>
  The call: the story is built, the engine lays it out and writes the file at
  \<open>output_path\<close>, a notice is printed and the path is returned. The console is the list
  of lines printed so far; a call that raises returns the error and leaves the console as
  it was.
\<close>

definition generate_split_receipt_pdf ::
  "environment \<Rightarrow> pydict \<Rightarrow> pydict \<Rightarrow> pydict list \<Rightarrow> pydict list \<Rightarrow> string \<Rightarrow> string list
     \<Rightarrow> (error + string) \<times> string list" where
  "generate_split_receipt_pdf env original_receipt new_receipt original_items new_items
       output_path console =
     (let doc = SimpleDocTemplate output_path in
      case story (now env) original_receipt new_receipt original_items new_items of
        Inl e \<Rightarrow> (Inl e, console)
      | Inr flowables \<Rightarrow>
          (case build env doc flowables of
             Some e \<Rightarrow> (Inl e, console)
           | None \<Rightarrow>
               (let line = check_mark @ '' PDF generated: '' @ output_path in
                case print env line of
                  Some e \<Rightarrow> (Inl e, console)
                | None \<Rightarrow> (Inr output_path, console @ [line]))))"

section \<open>Well-formed inputs and the exact rendering of an amount\<close>

text \<open>
  The types the data model gives the fields of a receipt record and of a line item. Every
  field may be absent, since the code reads each one with a default.
\<close>

fun is_str :: "pyval \<Rightarrow> bool" where
  "is_str (PStr s) = True"
| "is_str (PInt n) = False"

fun is_int :: "pyval \<Rightarrow> bool" where
  "is_int (PInt n) = True"
| "is_int (PStr s) = False"

definition absent_or :: "(pyval \<Rightarrow> bool) \<Rightarrow> pydict \<Rightarrow> string \<Rightarrow> bool" where
  "absent_or P d k = (case d k of None \<Rightarrow> True | Some v \<Rightarrow> P v)"

definition well_typed_receipt :: "pydict \<Rightarrow> bool" where
  "well_typed_receipt r =
     (absent_or is_str r ''id'' \<and> absent_or is_str r ''vendor'' \<and>
      absent_or is_str r ''receipt_date'' \<and> absent_or is_int r ''total_cents'' \<and>
      absent_or is_str r ''purpose_text'' \<and> absent_or is_str r ''suggested_category'')"

definition well_typed_item :: "pydict \<Rightarrow> bool" where
  "well_typed_item item =
     (absent_or is_str item ''description'' \<and> absent_or is_int item ''quantity'' \<and>
      absent_or is_int item ''unit_price_cents'' \<and> absent_or is_int item ''total_cents'')"

text \<open>An amount that is an integer of magnitude below \<open>2 ^ 1024\<close>, the range of a double.\<close>

fun fits_double :: "pyval \<Rightarrow> bool" where
  "fits_double (PInt n) = (\<bar>n\<bar> < 2 ^ 1024)"
| "fits_double (PStr s) = False"

definition receipt_amount_fits :: "pydict \<Rightarrow> bool" where
  "receipt_amount_fits r = absent_or fits_double r ''total_cents''"

definition item_amounts_fit :: "pydict \<Rightarrow> bool" where
  "item_amounts_fit item =
     (absent_or fits_double item ''unit_price_cents'' \<and> absent_or fits_double item ''total_cents'')"

text \<open>
  A quantity that \<^verbatim>\<open>str()\<close> converts: a string, or an integer of magnitude below
  \<open>10 ^ 4300\<close>, which has at most 4300 digits. A line item fits when its quantity and its
  two amounts do, each of them if it is present.
\<close>

fun fits_str :: "pyval \<Rightarrow> bool" where
  "fits_str (PInt n) = (\<bar>n\<bar> < 10 ^ int_max_str_digits)"
| "fits_str (PStr s) = True"

definition item_quantity_fits :: "pydict \<Rightarrow> bool" where
  "item_quantity_fits item = absent_or fits_str item ''quantity''"

definition item_fits :: "pydict \<Rightarrow> bool" where
  "item_fits item = (item_quantity_fits item \<and> item_amounts_fit item)"

text \<open>
  The rendering of an amount as the specification words it: the integer number of cents
  divided by 100, computed exactly, with exactly two decimal places and a \<open>$\<close> prefix.
\<close>

definition spec_currency :: "int \<Rightarrow> string" where
  "spec_currency n =
     ''$'' @ (if n < 0 then ''-'' else '''') @ digits (\<bar>n\<bar> div 100) @ ''.''
       @ [digit_char (\<bar>n\<bar> mod 100 div 10), digit_char (\<bar>n\<bar> mod 100 mod 10)]"

text \<open>
  An engine run that lays the story out and writes the file, and an output stream that
  takes the line.
\<close>

definition writes_file :: "doc_template \<Rightarrow> flowable list \<Rightarrow> error option" where
  "writes_file doc flowables = None"

definition writes_line :: "string \<Rightarrow> error option" where
  "writes_line line = None"

section \<open>Sample calls\<close>

text \<open>
  A split of a stationery receipt whose lunch items moved to a new receipt, a call whose
  two records have no fields at all, a call whose totals add up to more than a double
  resolves to the cent, and a record whose total is beyond the range of a double.
\<close>

definition sample_now :: string where
  "sample_now = ''March 15, 2024 at 02:30 PM''"

definition sample_env :: environment where
  "sample_env = \<lparr>now = sample_now, build = writes_file, print = writes_line\<rparr>"

definition sample_original :: pydict where
  "sample_original =
     [''id'' \<mapsto> PStr ''rcpt-2024-000123-original'', ''vendor'' \<mapsto> PStr ''Staples'',
      ''receipt_date'' \<mapsto> PStr ''2024-03-15'', ''total_cents'' \<mapsto> PInt 1050,
      ''purpose_text'' \<mapsto> PStr ''Stationery'']"

definition sample_new :: pydict where
  "sample_new =
     [''id'' \<mapsto> PStr ''rcpt-2024-000124-split'', ''vendor'' \<mapsto> PStr ''Staples'',
      ''receipt_date'' \<mapsto> PStr ''2024-03-15'', ''total_cents'' \<mapsto> PInt 2575,
      ''purpose_text'' \<mapsto> PStr ''Team lunch'',
      ''suggested_category'' \<mapsto> PStr ''Meals & Entertainment'']"

definition sample_item :: pydict where
  "sample_item = [''description'' \<mapsto> PStr ''Pens'', ''total_cents'' \<mapsto> PInt 1050]"

definition sample_footer :: string where
  \<open>sample_footer =
     ''\<newline>    <para alignment="center" fontSize="8" textColor="#9ca3af">'' @
     ''\<newline>    This document was automatically generated by the Receipt Management System.<br/>'' @
     ''\<newline>    Original Receipt ID: rcpt-2024-000123...<br/>'' @
     ''\<newline>    New Receipt ID: rcpt-2024-000124...'' @
     ''\<newline>    </para>'' @
     ''\<newline>    ''\<close>

definition sample_document :: "flowable list" where
  "sample_document =
     blocks sample_now
       [[PStr ''Vendor:'', PStr ''Staples''],
        [PStr ''Date:'', PStr ''2024-03-15''],
        [PStr ''Original Total:'', PStr ''$10.50 CAD''],
        [PStr ''Receipt ID:'', PStr ''rcpt-202...'']]
       [] ''$10.50'' ''Meals & Entertainment'' ''50%'' [] ''$25.75''
       [[PStr '''', PStr ''Receipt A'', PStr ''Receipt B'', PStr ''Total''],
        [PStr ''Subtotal + Tax'', PStr ''$10.50'', PStr ''$25.75'', PStr ''$36.25''],
        [PStr ''Tax Category'', PStr ''Office Supplies'', PStr ''Meals & Entertainment'',
         PStr em_dash],
        [PStr ''Deductibility'', PStr ''100%'', PStr ''50%'', PStr em_dash]]
       sample_footer"

definition bare_receipt :: pydict where
  "bare_receipt = Map.empty"

definition bare_footer :: string where
  \<open>bare_footer =
     ''\<newline>    <para alignment="center" fontSize="8" textColor="#9ca3af">'' @
     ''\<newline>    This document was automatically generated by the Receipt Management System.<br/>'' @
     ''\<newline>    Original Receipt ID: ...<br/>'' @
     ''\<newline>    New Receipt ID: ...'' @
     ''\<newline>    </para>'' @
     ''\<newline>    ''\<close>

definition bare_document :: "flowable list" where
  "bare_document =
     blocks sample_now
       [[PStr ''Vendor:'', PStr ''Unknown''],
        [PStr ''Date:'', PStr ''Not specified''],
        [PStr ''Original Total:'', PStr ''$0.00 CAD''],
        [PStr ''Receipt ID:'', PStr ''...'']]
       [] ''$0.00'' ''Other Expenses'' ''100%'' [] ''$0.00''
       [[PStr '''', PStr ''Receipt A'', PStr ''Receipt B'', PStr ''Total''],
        [PStr ''Subtotal + Tax'', PStr ''$0.00'', PStr ''$0.00'', PStr ''$0.00''],
        [PStr ''Tax Category'', PStr ''Office Supplies'', PStr ''Other Expenses'', PStr em_dash],
        [PStr ''Deductibility'', PStr ''100%'', PStr ''100%'', PStr em_dash]]
       bare_footer"

definition drift_original :: pydict where
  "drift_original = [''total_cents'' \<mapsto> PInt 7036874417766399]"

definition drift_new :: pydict where
  "drift_new = [''total_cents'' \<mapsto> PInt 2]"

definition drift_document :: "flowable list" where
  "drift_document =
     blocks sample_now
       [[PStr ''Vendor:'', PStr ''Unknown''],
        [PStr ''Date:'', PStr ''Not specified''],
        [PStr ''Original Total:'', PStr ''$70368744177663.99 CAD''],
        [PStr ''Receipt ID:'', PStr ''...'']]
       [] ''$70368744177663.99'' ''Other Expenses'' ''100%'' [] ''$0.02''
       [[PStr '''', PStr ''Receipt A'', PStr ''Receipt B'', PStr ''Total''],
        [PStr ''Subtotal + Tax'', PStr ''$70368744177663.99'', PStr ''$0.02'',
         PStr ''$70368744177664.02''],
        [PStr ''Tax Category'', PStr ''Office Supplies'', PStr ''Other Expenses'', PStr em_dash],
        [PStr ''Deductibility'', PStr ''100%'', PStr ''100%'', PStr em_dash]]
       bare_footer"

definition huge_original :: pydict where
  "huge_original = [''total_cents'' \<mapsto> PInt (10 ^ 400)]"

definition empty_item :: pydict where
  "empty_item = Map.empty"

text \<open>
  A line item with all its four keys, and one whose quantity is the first integer that
  the conversion to text refuses.
\<close>

definition counted_item :: pydict where
  "counted_item =
     [''description'' \<mapsto> PStr ''Lunch'', ''quantity'' \<mapsto> PInt 2,
      ''unit_price_cents'' \<mapsto> PInt 1250, ''total_cents'' \<mapsto> PInt 2500]"

definition long_quantity_item :: pydict where
  "long_quantity_item = [''quantity'' \<mapsto> PInt (10 ^ int_max_str_digits)]"

section \<open>Properties of the floating-point model\<close>

lemma bit_length_pos: "0 < n \<Longrightarrow> 0 < bit_length n"
  by (subst bit_length.simps) simp

lemma bit_length_bounds:
  "0 < n \<Longrightarrow> 2 ^ (bit_length n - 1) \<le> n \<and> n < 2 ^ bit_length n"
proof (induction n rule: bit_length.induct)
  case (1 n)
  show ?case
  proof (cases "n = 1")
    case True
    have "bit_length 1 = 1"
      by (simp add: bit_length.simps [of 1] bit_length.simps [of 0])
    with True show ?thesis by simp
  next
    case False
    with "1.prems" have h: "0 < n div 2" by simp
    from "1.prems" have nz: "\<not> n \<le> 0" by simp
    from "1.IH" [OF nz h]
    have lo: "2 ^ (bit_length (n div 2) - 1) \<le> n div 2"
      and hi: "n div 2 < 2 ^ bit_length (n div 2)" by simp_all
    have bl: "bit_length n = Suc (bit_length (n div 2))"
      using nz by (subst bit_length.simps) simp
    obtain b where b: "bit_length (n div 2) = Suc b"
      using bit_length_pos [OF h] by (cases "bit_length (n div 2)") auto
    from lo b have "2 * 2 ^ b \<le> 2 * (n div 2)" by simp
    also have "\<dots> \<le> n" by simp
    finally have A: "2 ^ (bit_length n - 1) \<le> n" by (simp add: bl b)
    from hi have "n div 2 + 1 \<le> 2 ^ bit_length (n div 2)" by simp
    then have "2 * (n div 2) + 2 \<le> 2 * 2 ^ bit_length (n div 2)" by simp
    moreover have "n < 2 * (n div 2) + 2" by presburger
    ultimately have B: "n < 2 ^ bit_length n" by (simp add: bl)
    from A B show ?thesis by simp
  qed
qed

lemma round_half_even_error: "\<bar>of_int (round_half_even y) - y\<bar> \<le> 1/2"
proof -
  have "of_int \<lfloor>y\<rfloor> \<le> y" "y < of_int \<lfloor>y\<rfloor> + 1" by linarith+
  then show ?thesis
    by (auto simp: round_half_even_def Let_def)
qed

lemma round_half_even_near:
  assumes "\<bar>y - of_int n\<bar> < 1/2"
  shows "round_half_even y = n"
proof -
  have "\<bar>of_int (round_half_even y) - y\<bar> \<le> 1/2" by (rule round_half_even_error)
  with assms have "\<bar>(of_int (round_half_even y) :: rat) - of_int n\<bar> < 1" by linarith
  then have "\<bar>of_int (round_half_even y - n) :: rat\<bar> < 1" by simp
  then have "\<bar>round_half_even y - n\<bar> < 1"
    by (metis of_int_abs of_int_less_1_iff)
  then show ?thesis by linarith
qed


lemma ilog2_bounds:
  assumes "0 < x"
  shows "2 powi ilog2 x \<le> x \<and> x < 2 powi (ilog2 x + 1)"
proof -
  obtain p q where pq: "quotient_of x = (p, q)" by (cases "quotient_of x")
  then have q: "0 < q" by (rule quotient_of_denom_pos)
  from pq have x: "x = of_int p / of_int q" by (rule quotient_of_div)
  with assms q have p: "0 < p" by (simp add: zero_less_divide_iff)
  define a b where "a = bit_length p" and "b = bit_length q"
  define k where "k = int a - int b"
  have a1: "1 \<le> a" and b1: "1 \<le> b"
    using bit_length_pos [OF p] bit_length_pos [OF q] by (simp_all add: a_def b_def)
  from bit_length_bounds [OF p] have "2 ^ (a - 1) \<le> p" "p < 2 ^ a" by (simp_all add: a_def)
  then have pr: "(2::rat) ^ (a - 1) \<le> of_int p" "(of_int p :: rat) < 2 ^ a"
    by (metis of_int_le_iff of_int_numeral of_int_power, metis of_int_less_iff of_int_numeral of_int_power)
  from bit_length_bounds [OF q] have "2 ^ (b - 1) \<le> q" "q < 2 ^ b" by (simp_all add: b_def)
  then have qr: "(2::rat) ^ (b - 1) \<le> of_int q" "(of_int q :: rat) < 2 ^ b"
    by (metis of_int_le_iff of_int_numeral of_int_power, metis of_int_less_iff of_int_numeral of_int_power)
  have up: "x < 2 powi (k + 1)"
  proof -
    have "x < 2 ^ a / 2 ^ (b - 1)"
      unfolding x using pr qr p by (intro frac_less) simp_all
    also have "\<dots> = 2 powi (int a - int (b - 1))"
      by (simp add: power_int_diff)
    also have "int a - int (b - 1) = k + 1" using b1 by (simp add: k_def)
    finally show ?thesis .
  qed
  have lo: "2 powi (k - 1) \<le> x"
  proof -
    have "int (a - 1) - int b = k - 1" using a1 by (simp add: k_def)
    then have "(2::rat) powi (k - 1) = 2 ^ (a - 1) / 2 ^ b"
      by (metis power_int_diff power_int_of_nat zero_neq_numeral)
    also have "\<dots> \<le> x"
      unfolding x using pr qr p q by (intro frac_le) simp_all
    finally show ?thesis .
  qed
  have il: "ilog2 x = (if 2 powi k \<le> x then k else k - 1)"
    by (simp add: ilog2_def pq k_def a_def b_def)
  show ?thesis
  proof (cases "2 powi k \<le> x")
    case True
    with il up show ?thesis by simp
  next
    case False
    with il lo show ?thesis by simp
  qed
qed

lemma ilog2_less:
  assumes "0 < x" "x < 2 powi k"
  shows "ilog2 x < k"
proof (rule ccontr)
  assume "\<not> ilog2 x < k"
  then have "k \<le> ilog2 x" by simp
  then have "(2::rat) powi k \<le> 2 powi ilog2 x" by (intro power_int_increasing) simp_all
  with ilog2_bounds [OF assms(1)] assms(2) show False by simp
qed

lemma ilog2_ge:
  assumes "0 < x" "2 powi k \<le> x"
  shows "k \<le> ilog2 x"
proof (rule ccontr)
  assume "\<not> k \<le> ilog2 x"
  then have "ilog2 x + 1 \<le> k" by simp
  then have "(2::rat) powi (ilog2 x + 1) \<le> 2 powi k" by (intro power_int_increasing) simp_all
  with ilog2_bounds [OF assms(1)] assms(2) show False by simp
qed

lemma round_to_double_error:
  assumes "x \<noteq> 0"
  shows "\<bar>round_to_double x - x\<bar> \<le> 2 powi (max (ilog2 \<bar>x\<bar> - 52) (- 1074)) / 2"
proof -
  define s :: rat where "s = 2 powi (max (ilog2 \<bar>x\<bar> - 52) (- 1074))"
  have s: "0 < s" by (simp add: s_def)
  have r: "round_to_double x = of_int (round_half_even (x / s)) * s"
    using assms by (simp add: round_to_double_def s_def Let_def)
  have "round_to_double x - x = (of_int (round_half_even (x / s)) - x / s) * s"
    using s by (simp add: r algebra_simps)
  then have "\<bar>round_to_double x - x\<bar> = \<bar>of_int (round_half_even (x / s)) - x / s\<bar> * s"
    using s by (simp add: abs_mult)
  also have "\<dots> \<le> (1/2) * s"
    using s round_half_even_error [of "x / s"] by (intro mult_right_mono) simp_all
  finally show ?thesis by (simp add: s_def)
qed

lemma round_to_double_error_le:
  assumes "x \<noteq> 0" "\<bar>x\<bar> < 2 powi k" "- 1021 \<le> k"
  shows "\<bar>round_to_double x - x\<bar> \<le> 2 powi (k - 53) / 2"
proof -
  have "ilog2 \<bar>x\<bar> < k" using assms by (intro ilog2_less) simp_all
  then have "max (ilog2 \<bar>x\<bar> - 52) (- 1074) \<le> k - 53" using assms(3) by simp
  then have "(2::rat) powi (max (ilog2 \<bar>x\<bar> - 52) (- 1074)) \<le> 2 powi (k - 53)"
    by (intro power_int_increasing) simp_all
  with round_to_double_error [OF assms(1)] show ?thesis by simp
qed

lemma cents_near:
  assumes "\<bar>n\<bar> < 100 * 2 ^ 46"
  shows "\<bar>round_to_double (of_int n / 100) - of_int n / 100\<bar> \<le> 1 / 256"
proof (cases "n = 0")
  case True
  then show ?thesis by (simp add: round_to_double_def)
next
  case False
  define x :: rat where "x = of_int n / 100"
  have x0: "x \<noteq> 0" using False by (simp add: x_def)
  have "(of_int \<bar>n\<bar> :: rat) < of_int (100 * 2 ^ 46)" using assms by (simp only: of_int_less_iff)
  then have "\<bar>x\<bar> < 2 ^ 46" by (simp add: x_def)
  then have "\<bar>x\<bar> < 2 powi 46" by simp
  from round_to_double_error_le [OF x0 this] have "\<bar>round_to_double x - x\<bar> \<le> 2 powi (- 7) / 2"
    by simp
  then show ?thesis by (simp add: x_def power_int_minus)
qed

lemma cents_sign:
  assumes "\<bar>n\<bar> < 100 * 2 ^ 46"
  shows "round_to_double (of_int n / 100) < 0 \<longleftrightarrow> n < 0"
proof -
  note near = cents_near [OF assms]
  consider "n \<le> - 1" | "n = 0" | "1 \<le> n" by linarith
  then show ?thesis
  proof cases
    case 1
    then have "(of_int n :: rat) \<le> of_int (- 1)" by (simp only: of_int_le_iff)
    then have "(of_int n :: rat) / 100 \<le> - 1 / 100" by simp
    with near 1 show ?thesis by (simp; linarith)
  next
    case 2
    then show ?thesis by (simp add: round_to_double_def)
  next
    case 3
    then have "(of_int 1 :: rat) \<le> of_int n" by (simp only: of_int_le_iff)
    then have "1 / 100 \<le> (of_int n :: rat) / 100" by simp
    with near 3 show ?thesis by (simp; linarith)
  qed
qed

lemma true_div_100_ok:
  assumes "\<bar>n\<bar> < 2 ^ 1026"
  shows "true_div n 100 = Inr (round_to_double (of_int n / 100))"
proof (cases "n = 0")
  case True
  then show ?thesis by (simp add: true_div_def round_to_double_def)
next
  case False
  define x :: rat where "x = of_int n / 100"
  have x0: "x \<noteq> 0" using False by (simp add: x_def)
  have "(of_int \<bar>n\<bar> :: rat) < of_int (2 ^ 1026)" using assms by (simp only: of_int_less_iff)
  then have "\<bar>of_int n :: rat\<bar> < 2 ^ 1026" by simp
  then have "\<bar>x\<bar> < 2 ^ 1026 / 100" by (simp add: x_def)
  also have "\<dots> < (2::rat) ^ 1023" by simp
  finally have b: "\<bar>x\<bar> < 2 ^ 1023" .
  then have "\<bar>x\<bar> < 2 powi 1023" by simp
  from round_to_double_error_le [OF x0 this]
  have "\<bar>round_to_double x - x\<bar> \<le> 2 powi 970 / 2" by simp
  then have "\<bar>round_to_double x - x\<bar> \<le> 2 ^ 970 / 2" by simp
  with b have "\<bar>round_to_double x\<bar> < 2 ^ 1023 + 2 ^ 970 / 2" by linarith
  also have "\<dots> < (2::rat) ^ 1024" by simp
  finally show ?thesis by (simp add: true_div_def x_def Let_def)
qed

section \<open>Properties of the formatting steps\<close>

text \<open>When a step returns, and what it returns then.\<close>

lemma and_then_Inr_iff: "and_then m f = Inr y \<longleftrightarrow> (\<exists>v. m = Inr v \<and> f v = Inr y)"
  by (cases m) (simp_all add: and_then_def)

lemma slice_to_Inr_iff: "slice_to k v = Inr t \<longleftrightarrow> (\<exists>s. v = PStr s \<and> t = take k s)"
  by (cases v) (auto simp: slice_to_def)

lemma py_in_Inr_iff: "py_in sub v = Inr b \<longleftrightarrow> (\<exists>s. v = PStr s \<and> b = str_contains sub s)"
  by (cases v) (auto simp: py_in_def)

lemma deductible_Inr_iff:
  "deductible v = Inr d \<longleftrightarrow>
     (\<exists>c. v = PStr c \<and> d = (if str_contains ''Meal'' c then ''50%'' else ''100%''))"
  by (auto simp: deductible_def and_then_Inr_iff py_in_Inr_iff)

lemma original_data_Inr_iff:
  "original_data r = Inr rows \<longleftrightarrow>
     (\<exists>total rid. dollars (dict_get r ''total_cents'' (PInt 0)) = Inr total \<and>
        dict_get r ''id'' (PStr '''') = PStr rid \<and>
        rows = [[PStr ''Vendor:'', dict_get r ''vendor'' (PStr ''Unknown'')],
                [PStr ''Date:'', dict_get r ''receipt_date'' (PStr ''Not specified'')],
                [PStr ''Original Total:'', PStr (total @ '' CAD'')],
                [PStr ''Receipt ID:'', PStr (take 8 rid @ ''...'')]])"
  by (auto simp: original_data_def and_then_Inr_iff slice_to_Inr_iff)

lemma dollars_Inr_int: "dollars v = Inr t \<Longrightarrow> \<exists>n. v = PInt n"
  by (cases v) (simp_all add: dollars_def)

lemma summary_data_Inr_iff:
  "summary_data ra new category d = Inr rows \<longleftrightarrow>
     (\<exists>a b x y total. ra = PInt x \<and> dict_get new ''total_cents'' (PInt 0) = PInt y \<and>
        dollars (PInt x) = Inr a \<and> dollars (PInt y) = Inr b \<and> dollars (PInt (x + y)) = Inr total \<and>
        rows = [[PStr '''', PStr ''Receipt A'', PStr ''Receipt B'', PStr ''Total''],
                [PStr ''Subtotal + Tax'', PStr a, PStr b, PStr total],
                [PStr ''Tax Category'', PStr ''Office Supplies'', category, PStr em_dash],
                [PStr ''Deductibility'', PStr ''100%'', PStr d, PStr em_dash]])"
  apply (cases ra; cases "dict_get new ''total_cents'' (PInt 0)")
     apply (auto simp: summary_data_def and_then_Inr_iff dest: dollars_Inr_int)
  done

lemma footer_text_Inr_iff:
  \<open>footer_text original new = Inr ft \<longleftrightarrow>
     (\<exists>oid nid. dict_get original ''id'' (PStr '''') = PStr oid \<and>
        dict_get new ''id'' (PStr '''') = PStr nid \<and>
        ft = ''\<newline>    <para alignment="center" fontSize="8" textColor="#9ca3af">'' @
          ''\<newline>    This document was automatically generated by the Receipt Management System.<br/>'' @
          ''\<newline>    Original Receipt ID: '' @ take 16 oid @ ''...<br/>'' @
          ''\<newline>    New Receipt ID: '' @ take 16 nid @ ''...'' @
          ''\<newline>    </para>'' @
          ''\<newline>    '')\<close>
  by (auto simp: footer_text_def and_then_Inr_iff slice_to_Inr_iff)

lemma story_Inr_iff:
  "story now_text original new original_items new_items = Inr s \<longleftrightarrow>
     (\<exists>rows ta a c tb b srows ft.
        original_data original = Inr rows \<and>
        items_table (items_table_style ''#f3f4f6'' ''#e5e7eb'') original_items = Inr ta \<and>
        dollars (dict_get original ''total_cents'' (PInt 0)) = Inr a \<and>
        dict_get new ''suggested_category'' (PStr ''Other Expenses'') = PStr c \<and>
        items_table (items_table_style ''#fef3c7'' ''#fbbf24'') new_items = Inr tb \<and>
        dollars (dict_get new ''total_cents'' (PInt 0)) = Inr b \<and>
        summary_data (dict_get original ''total_cents'' (PInt 0)) new (PStr c)
          (if str_contains ''Meal'' c then ''50%'' else ''100%'') = Inr srows \<and>
        footer_text original new = Inr ft \<and>
        s = blocks now_text rows ta a c
              (if str_contains ''Meal'' c then ''50%'' else ''100%'') tb b srows ft)"
  unfolding story_def Let_def and_then_Inr_iff deductible_Inr_iff
  by (intro iffI; elim exE conjE; simp add: py_str_def)

subsection \<open>Formatting an amount\<close>

text \<open>
  Below 100 times \<open>2 ^ 46\<close> cents the double nearest to the amount in dollars is within
  1/256 of it, so rounding it to hundredths gives the cents back: the rendering is exact.
  Every integer below \<open>2 ^ 1024\<close> in magnitude is formatted without error.
\<close>

lemma dollars_exact:
  assumes "\<bar>n\<bar> < 100 * 2 ^ 46"
  shows "dollars (PInt n) = Inr (spec_currency n)"
proof -
  define q where "q = round_to_double (of_int n / 100)"
  have near: "\<bar>q - of_int n / 100\<bar> \<le> 1 / 256"
    unfolding q_def by (rule cents_near [OF assms])
  have "\<bar>n\<bar> < 2 ^ 1026" using assms by simp
  then have td: "true_div n 100 = Inr q"
    unfolding q_def by (rule true_div_100_ok)
  have sign: "q < 0 \<longleftrightarrow> n < 0"
    unfolding q_def by (rule cents_sign [OF assms])
  have d: "\<bar>\<bar>q\<bar> - \<bar>of_int n / 100\<bar>\<bar> \<le> 1 / 256"
    using near by linarith
  have "\<bar>q\<bar> * 100 - of_int \<bar>n\<bar> = (\<bar>q\<bar> - \<bar>of_int n / 100\<bar>) * 100"
    by (simp add: algebra_simps)
  then have "\<bar>\<bar>q\<bar> * 100 - of_int \<bar>n\<bar>\<bar> = \<bar>\<bar>q\<bar> - \<bar>of_int n / 100\<bar>\<bar> * 100"
    by (simp only: abs_mult) simp
  with d have "\<bar>\<bar>q\<bar> * 100 - of_int \<bar>n\<bar>\<bar> < 1 / 2"
    by linarith
  then have c: "round_half_even (\<bar>q\<bar> * 100) = \<bar>n\<bar>"
    by (rule round_half_even_near)
  show ?thesis
    by (simp add: dollars_def and_then_def td format_2f_def c sign spec_currency_def Let_def
        mod_mod_cancel)
qed

lemma dollars_fits:
  assumes "fits_double v"
  shows "\<exists>t. dollars v = Inr t"
proof (cases v)
  case (PInt n)
  with assms have "\<bar>n\<bar> < 2 ^ 1024" by simp
  then have "\<bar>n\<bar> < 2 ^ 1026" by simp
  then have "true_div n 100 = Inr (round_to_double (of_int n / 100))"
    by (rule true_div_100_ok)
  with PInt show ?thesis by (simp add: dollars_def and_then_def)
next
  case (PStr s)
  with assms show ?thesis by simp
qed

lemma dollars_sum_fits:
  assumes "fits_double (PInt x)" "fits_double (PInt y)"
  shows "\<exists>t. dollars (PInt (x + y)) = Inr t"
proof -
  from assms have "\<bar>x\<bar> < 2 ^ 1024" "\<bar>y\<bar> < 2 ^ 1024" by simp_all
  then have "\<bar>x + y\<bar> < 2 ^ 1026" by simp
  then have "true_div (x + y) 100 = Inr (round_to_double (of_int (x + y) / 100))"
    by (rule true_div_100_ok)
  then show ?thesis by (simp add: dollars_def and_then_def)
qed

lemma digits_0: "digits 0 = ''0''"
  by (simp add: digits.simps digit_char_def)

lemma dollars_zero: "dollars (PInt 0) = Inr ''$0.00''"
  using dollars_exact [of 0] by (simp add: spec_currency_def digits_0 digit_char_def)

lemma dict_get_absent: "d k = None \<Longrightarrow> dict_get d k dflt = dflt"
  by (simp add: dict_get_def)

lemma dict_get_fits:
  "absent_or fits_double d k \<Longrightarrow> fits_double (dict_get d k (PInt 0))"
  by (simp add: absent_or_def dict_get_def split: option.splits)

lemma dict_get_str:
  "absent_or is_str d k \<Longrightarrow> \<exists>s. dict_get d k (PStr dflt) = PStr s"
  by (auto simp: absent_or_def dict_get_def split: option.splits elim: is_str.elims)

section \<open>Properties of the conversion of an integer to text\<close>

text \<open>
  A natural number has at most \<open>k\<close> digits exactly when it is below \<open>10 ^ k\<close>. So
  \<^verbatim>\<open>str()\<close> converts the integers of magnitude below \<open>10 ^ 4300\<close> and raises
  \<^verbatim>\<open>ValueError\<close> on all the others, \<open>10 ^ 4300\<close> being the first.
\<close>

lemma digits_length_le:
  assumes "n < 10 ^ k" "0 < k"
  shows "length (digits n) \<le> k"
  using assms
proof (induction n arbitrary: k rule: digits.induct)
  case (1 n)
  show ?case
  proof (cases "n < 10")
    case True
    then have "digits n = [digit_char n]"
      by (simp add: digits.simps)
    with 1(3) show ?thesis by simp
  next
    case False
    from 1(3) obtain j where k: "k = Suc j"
      by (cases k) auto
    from False 1(2) have j: "0 < j"
      unfolding k by (cases j) auto
    from 1(2) have "n < 10 ^ j * 10"
      unfolding k by simp
    then have "n div 10 < 10 ^ j"
      by (simp add: div_less_iff_less_mult)
    from 1(1) [OF False this j] have "length (digits (n div 10)) \<le> j" .
    moreover from False have "digits n = digits (n div 10) @ [digit_char (n mod 10)]"
      by (subst digits.simps) simp
    ultimately show ?thesis by (simp add: k)
  qed
qed

lemma digits_length_gt:
  assumes "10 ^ k \<le> n"
  shows "k < length (digits n)"
  using assms
proof (induction k arbitrary: n)
  case 0
  show ?case by (subst digits.simps) simp
next
  case (Suc k)
  have one: "(1::int) \<le> 10 ^ k" by simp
  from Suc.prems have prem: "10 ^ k * 10 \<le> n" by simp
  from one prem have ten: "10 \<le> n" by linarith
  note prem
  then have "10 ^ k \<le> n div 10"
    by (simp add: less_eq_div_iff_mult_less_eq)
  from Suc.IH [OF this] have "k < length (digits (n div 10))" .
  moreover from ten have "digits n = digits (n div 10) @ [digit_char (n mod 10)]"
    by (subst digits.simps) simp
  ultimately show ?case by simp
qed

lemma int_max_str_digits_pos: "0 < int_max_str_digits"
  by (simp add: int_max_str_digits_def)

lemma digits_within_limit:
  "int_max_str_digits < length (digits \<bar>n\<bar>) \<longleftrightarrow> 10 ^ int_max_str_digits \<le> \<bar>n\<bar>"
proof
  assume long: "int_max_str_digits < length (digits \<bar>n\<bar>)"
  show "10 ^ int_max_str_digits \<le> \<bar>n\<bar>"
  proof (rule ccontr)
    assume "\<not> 10 ^ int_max_str_digits \<le> \<bar>n\<bar>"
    then have "\<bar>n\<bar> < 10 ^ int_max_str_digits" by simp
    from digits_length_le [OF this int_max_str_digits_pos] long show False by simp
  qed
next
  assume "10 ^ int_max_str_digits \<le> \<bar>n\<bar>"
  then show "int_max_str_digits < length (digits \<bar>n\<bar>)"
    by (rule digits_length_gt)
qed

lemma py_str_Inr_iff:
  "py_str v = Inr t \<longleftrightarrow>
     v = PStr t \<or> (\<exists>n. v = PInt n \<and> \<bar>n\<bar> < 10 ^ int_max_str_digits \<and> t = str_int n)"
  by (cases v) (auto simp: py_str_def digits_within_limit)

lemma py_str_Inl_iff:
  "py_str v = Inl e \<longleftrightarrow> (\<exists>n. v = PInt n \<and> 10 ^ int_max_str_digits \<le> \<bar>n\<bar> \<and> e = ValueError)"
  by (cases v) (auto simp: py_str_def digits_within_limit)

lemma py_str_fits: "fits_str v \<Longrightarrow> \<exists>t. py_str v = Inr t"
  by (cases v) (simp_all add: py_str_Inr_iff)

lemma fits_str_one: "fits_str (PInt 1)"
  using one_less_power [of "10::int" int_max_str_digits] by (simp add: int_max_str_digits_pos)

lemma py_str_one: "py_str (PInt 1) = Inr ''1''"
  using fits_str_one by (simp add: py_str_Inr_iff str_int_def digits.simps [of 1] digit_char_def)

lemma py_str_limit: "py_str (PInt (10 ^ int_max_str_digits)) = Inl ValueError"
  by (simp add: py_str_Inl_iff)

lemma dict_get_fits_str:
  "absent_or fits_str d k \<Longrightarrow> fits_str (dict_get d k (PInt 1))"
  using fits_str_one by (simp add: absent_or_def dict_get_def split: option.splits)

section \<open>Properties of the item tables\<close>

lemma item_row_Inr_iff:
  "item_row item = Inr row \<longleftrightarrow>
     (\<exists>q u t. py_str (dict_get item ''quantity'' (PInt 1)) = Inr q \<and>
        dollars (dict_get item ''unit_price_cents'' (PInt 0)) = Inr u \<and>
        dollars (dict_get item ''total_cents'' (PInt 0)) = Inr t \<and>
        row = [dict_get item ''description'' (PStr ''''), PStr q, PStr u, PStr t])"
  by (auto simp: item_row_def Let_def and_then_Inr_iff)

lemma item_row_fits:
  assumes "item_fits item"
  shows "\<exists>row. item_row item = Inr row"
proof -
  from assms have "fits_str (dict_get item ''quantity'' (PInt 1))"
    by (simp add: item_fits_def item_quantity_fits_def dict_get_fits_str)
  then obtain q where "py_str (dict_get item ''quantity'' (PInt 1)) = Inr q"
    using py_str_fits by blast
  moreover from assms have "fits_double (dict_get item ''unit_price_cents'' (PInt 0))"
    and "fits_double (dict_get item ''total_cents'' (PInt 0))"
    by (simp_all add: item_fits_def item_amounts_fit_def dict_get_fits)
  then obtain u t where "dollars (dict_get item ''unit_price_cents'' (PInt 0)) = Inr u"
    and "dollars (dict_get item ''total_cents'' (PInt 0)) = Inr t"
    using dollars_fits by blast
  ultimately show ?thesis by (simp add: item_row_Inr_iff)
qed


text \<open>A row raises only the error of a key that is present.\<close>

lemma item_row_Inl:
  assumes "item_row item = Inl e"
  shows "(\<exists>v. item ''quantity'' = Some v \<and> py_str v = Inl e) \<or>
         (\<exists>v. item ''unit_price_cents'' = Some v \<and> dollars v = Inl e) \<or>
         (\<exists>v. item ''total_cents'' = Some v \<and> dollars v = Inl e)"
proof -
  have q: "py_str (dict_get item ''quantity'' (PInt 1)) = Inl e
      \<Longrightarrow> \<exists>v. item ''quantity'' = Some v \<and> py_str v = Inl e" for e
    by (cases "item ''quantity''") (simp_all add: dict_get_def py_str_one)
  have d: "dollars (dict_get item k (PInt 0)) = Inl e
      \<Longrightarrow> \<exists>v. item k = Some v \<and> dollars v = Inl e" for k e
    by (cases "item k") (simp_all add: dict_get_def dollars_zero)
  from assms show ?thesis
    unfolding item_row_def Let_def and_then_def
    by (auto split: sum.splits dest: q d)
qed

lemma append_items_Inr_iff:
  "append_items acc items = Inr rows \<longleftrightarrow>
     (\<exists>rs. list_all2 (\<lambda>item row. item_row item = Inr row) items rs \<and> rows = acc @ rs)"
proof (induction items arbitrary: acc)
  case Nil
  then show ?case by auto
next
  case (Cons item items)
  show ?case
    by (auto simp: and_then_Inr_iff Cons.IH list_all2_Cons1)
qed

lemma append_items_fits:
  assumes "list_all item_fits items"
  shows "\<exists>rows. append_items acc items = Inr rows"
  using assms
proof (induction items arbitrary: acc)
  case Nil
  then show ?case by simp
next
  case (Cons item items)
  then obtain row where "item_row item = Inr row"
    using item_row_fits by auto
  moreover from Cons obtain rows where "append_items (acc @ [row]) items = Inr rows"
    by auto
  ultimately show ?case by (simp add: and_then_def)
qed

lemma items_table_Nil: "items_table style [] = Inr []"
  by (simp add: items_table_def)

lemma items_table_Inr_iff:
  "items_table style items = Inr t \<longleftrightarrow>
     (items = [] \<and> t = [] \<or>
      items \<noteq> [] \<and>
      (\<exists>rs. list_all2 (\<lambda>item row. item_row item = Inr row) items rs \<and>
         t = [Table ([PStr ''Description'', PStr ''Qty'', PStr ''Unit Price'', PStr ''Total''] # rs)
                [300, 75, 100, 100] style]))"
  by (auto simp: items_table_def and_then_Inr_iff append_items_Inr_iff)

lemma items_table_fits:
  assumes "list_all item_fits items"
  shows "\<exists>t. items_table style items = Inr t"
proof (cases "items = []")
  case True
  then show ?thesis by (simp add: items_table_Nil)
next
  case False
  from append_items_fits [OF assms] obtain rows where
    "append_items [[PStr ''Description'', PStr ''Qty'', PStr ''Unit Price'', PStr ''Total'']] items
       = Inr rows" by blast
  with False show ?thesis by (simp add: items_table_def and_then_def)
qed


lemma items_table_style:
  assumes "items_table style items = Inr t" "Table rows widths style' \<in> set t"
  shows "style' = style \<and> items \<noteq> []"
  using assms by (auto simp: items_table_Inr_iff)

section \<open>Properties of the story\<close>

lemma fits_double_int: "fits_double v \<Longrightarrow> \<exists>n. v = PInt n \<and> \<bar>n\<bar> < 2 ^ 1024"
  by (cases v) simp_all

lemma story_succeeds:
  assumes "absent_or is_str original ''id''" "absent_or is_str new ''id''"
    and "absent_or is_str new ''suggested_category''"
    and "receipt_amount_fits original" "receipt_amount_fits new"
    and "list_all item_fits original_items" "list_all item_fits new_items"
  shows "\<exists>s. story now_text original new original_items new_items = Inr s"
proof -
  from assms(4) obtain x where x: "dict_get original ''total_cents'' (PInt 0) = PInt x"
    and fx: "fits_double (PInt x)"
    using fits_double_int [OF dict_get_fits] by (fastforce simp: receipt_amount_fits_def)
  from assms(5) obtain y where y: "dict_get new ''total_cents'' (PInt 0) = PInt y"
    and fy: "fits_double (PInt y)"
    using fits_double_int [OF dict_get_fits] by (fastforce simp: receipt_amount_fits_def)
  from dollars_fits [OF fx] obtain a where a: "dollars (PInt x) = Inr a" ..
  from dollars_fits [OF fy] obtain b where b: "dollars (PInt y) = Inr b" ..
  from dollars_sum_fits [OF fx fy] obtain t where t: "dollars (PInt (x + y)) = Inr t" ..
  from dict_get_str [OF assms(1)] obtain rid where
    rid: "dict_get original ''id'' (PStr '''') = PStr rid" ..
  from dict_get_str [OF assms(2)] obtain nid where
    nid: "dict_get new ''id'' (PStr '''') = PStr nid" ..
  from dict_get_str [OF assms(3)] obtain c where
    c: "dict_get new ''suggested_category'' (PStr ''Other Expenses'') = PStr c" ..
  from items_table_fits [OF assms(6)] obtain ta where
    ta: "items_table (items_table_style ''#f3f4f6'' ''#e5e7eb'') original_items = Inr ta" ..
  from items_table_fits [OF assms(7)] obtain tb where
    tb: "items_table (items_table_style ''#fef3c7'' ''#fbbf24'') new_items = Inr tb" ..
  have "\<exists>rows. original_data original = Inr rows"
    by (simp add: original_data_Inr_iff x a rid)
  moreover have "\<exists>srows. summary_data (dict_get original ''total_cents'' (PInt 0)) new (PStr c)
          (if str_contains ''Meal'' c then ''50%'' else ''100%'') = Inr srows"
    by (simp add: summary_data_Inr_iff x y a b t)
  moreover have "\<exists>ft. footer_text original new = Inr ft"
    by (simp add: footer_text_Inr_iff rid nid)
  ultimately show ?thesis
    unfolding story_Inr_iff using x y a b c ta tb by auto
qed

lemma generate_returns:
  assumes "story (now env) original new original_items new_items = Inr s"
    and "build env (SimpleDocTemplate output_path) s = None"
    and "print env (check_mark @ '' PDF generated: '' @ output_path) = None"
  shows "generate_split_receipt_pdf env original new original_items new_items output_path console
           = (Inr output_path, console @ [check_mark @ '' PDF generated: '' @ output_path])"
  using assms by (simp add: generate_split_receipt_pdf_def Let_def)

lemma generate_raises:
  assumes "story (now env) original new original_items new_items = Inl e"
  shows "generate_split_receipt_pdf env original new original_items new_items output_path console
           = (Inl e, console)"
  using assms by (simp add: generate_split_receipt_pdf_def)

subsection \<open>The substring test\<close>

text \<open>\<^verbatim>\<open>sub in s\<close> holds exactly when \<open>sub\<close> occurs in \<open>s\<close> as a contiguous run of characters.\<close>

lemma starts_with_iff: "starts_with p s \<longleftrightarrow> (\<exists>ss. s = p @ ss)"
  by (induction p s rule: starts_with.induct) auto

lemma str_contains_iff: "str_contains sub s \<longleftrightarrow> (\<exists>ps ss. s = ps @ sub @ ss)"
proof (induction s)
  case Nil
  then show ?case by auto
next
  case (Cons c cs)
  show ?case
  proof
    assume "str_contains sub (c # cs)"
    then consider "starts_with sub (c # cs)" | "str_contains sub cs" by auto
    then show "\<exists>ps ss. c # cs = ps @ sub @ ss"
    proof cases
      case 1
      then obtain ss where "c # cs = sub @ ss" by (auto simp: starts_with_iff)
      then have "c # cs = [] @ sub @ ss" by simp
      then show ?thesis by blast
    next
      case 2
      with Cons.IH obtain ps ss where "cs = ps @ sub @ ss" by blast
      then have "c # cs = (c # ps) @ sub @ ss" by simp
      then show ?thesis by blast
    qed
  next
    assume "\<exists>ps ss. c # cs = ps @ sub @ ss"
    then obtain ps ss where eq: "c # cs = ps @ sub @ ss" by blast
    show "str_contains sub (c # cs)"
    proof (cases ps)
      case Nil
      with eq have "starts_with sub (c # cs)" by (auto simp: starts_with_iff)
      then show ?thesis by simp
    next
      case (Cons p ps')
      with eq have "cs = ps' @ sub @ ss" by simp
      with Cons.IH have "str_contains sub cs" by blast
      then show ?thesis by simp
    qed
  qed
qed

subsection \<open>The blocks of a story\<close>

lemma blocks_nth_1:
  "blocks now_text rows ta a cat d tb b srows ft ! 1 = Paragraph (''Generated: '' @ now_text) body_style"
  by (simp add: blocks_def)

lemma blocks_nth_6:
  "blocks now_text rows ta a cat d tb b srows ft ! 6 = Table rows [150, 450] original_table_style"
  by (simp add: blocks_def)

lemma blocks_nth_10:
  "blocks now_text rows ta a cat d tb b srows ft ! 10
     = Paragraph ''<b>Receipt A: Office Supplies (100% Deductible)</b>'' body_style"
  by (simp add: blocks_def)

lemma blocks_last:
  "last (blocks now_text rows ta a cat d tb b srows ft) = Paragraph ft body_style"
  by (simp add: blocks_def)

lemma blocks_update_now:
  "(blocks now_text rows ta a cat d tb b srows ft)
       [1 := Paragraph (''Generated: '' @ now_text') body_style]
     = blocks now_text' rows ta a cat d tb b srows ft"
  by (simp add: blocks_def)

lemma blocks_total_a:
  "Paragraph (''<b>Receipt A Total: '' @ a @ '' CAD</b>'') body_style
     \<in> set (blocks now_text rows ta a cat d tb b srows ft)"
  by (simp add: blocks_def)

lemma blocks_total_b:
  "Paragraph (''<b>Receipt B Total: '' @ b @ '' CAD</b>'') body_style
     \<in> set (blocks now_text rows ta a cat d tb b srows ft)"
  by (simp add: blocks_def)

lemma blocks_label_b:
  "Paragraph (''<b>Receipt B: '' @ cat @ '' ('' @ d @ '' Deductible)</b>'') body_style
     \<in> set (blocks now_text rows ta a cat d tb b srows ft)"
  by (simp add: blocks_def)

lemma blocks_treatment_b:
  "Paragraph (''Tax Treatment: '' @ d @ '' deductible ('' @ cat @ '')'') body_style
     \<in> set (blocks now_text rows ta a cat d tb b srows ft)"
  by (simp add: blocks_def)

lemma blocks_summary:
  "Table srows [200, 150, 150, 150] summary_table_style
     \<in> set (blocks now_text rows ta a cat d tb b srows ft)"
  by (simp add: blocks_def)

lemma blocks_tables:
  "Table r w st \<in> set (blocks now_text rows ta a cat d tb b srows ft) \<longleftrightarrow>
     (r = rows \<and> w = [150, 450] \<and> st = original_table_style) \<or>
     Table r w st \<in> set ta \<or> Table r w st \<in> set tb \<or>
     (r = srows \<and> w = [200, 150, 150, 150] \<and> st = summary_table_style)"
  by (auto simp: blocks_def)

lemma blocks_receipt_a:
  "\<exists>pre post. blocks now_text rows ta a cat d tb b srows ft
     = pre @ [Paragraph ''<b>Receipt A: Office Supplies (100% Deductible)</b>'' body_style,
              Spacer 10] @ ta @
             [Spacer 10, Paragraph (''<b>Receipt A Total: '' @ a @ '' CAD</b>'') body_style] @ post"
proof -
  have "blocks now_text rows ta a cat d tb b srows ft
     = (take 10 (blocks now_text rows ta a cat d tb b srows ft))
       @ [Paragraph ''<b>Receipt A: Office Supplies (100% Deductible)</b>'' body_style,
              Spacer 10] @ ta @
             [Spacer 10, Paragraph (''<b>Receipt A Total: '' @ a @ '' CAD</b>'') body_style]
       @ ([Paragraph ''Tax Treatment: 100% deductible business expense'' body_style,
           Spacer 25,
           Paragraph (''<b>Receipt B: '' @ cat @ '' ('' @ d @ '' Deductible)</b>'')
             body_style,
           Spacer 10] @ tb @
          [Spacer 10,
           Paragraph (''<b>Receipt B Total: '' @ b @ '' CAD</b>'') body_style,
           Paragraph (''Tax Treatment: '' @ d @ '' deductible ('' @ cat @ '')'') body_style,
           Spacer 30,
           Paragraph ''SUMMARY'' heading_style,
           Table srows [200, 150, 150, 150] summary_table_style,
           Spacer 30,
           Paragraph compliance_note body_style,
           Spacer 40,
           Paragraph ft body_style])"
    by (simp add: blocks_def)
  then show ?thesis by blast
qed

lemma blocks_receipt_b:
  "\<exists>pre post. blocks now_text rows ta a cat d tb b srows ft
     = pre @ [Paragraph (''<b>Receipt B: '' @ cat @ '' ('' @ d @ '' Deductible)</b>'')
                body_style,
              Spacer 10] @ tb @
             [Spacer 10, Paragraph (''<b>Receipt B Total: '' @ b @ '' CAD</b>'') body_style] @ post"
proof -
  have "blocks now_text rows ta a cat d tb b srows ft
     = (take 12 (blocks now_text rows ta a cat d tb b srows ft) @ ta @
        [Spacer 10,
         Paragraph (''<b>Receipt A Total: '' @ a @ '' CAD</b>'') body_style,
         Paragraph ''Tax Treatment: 100% deductible business expense'' body_style,
         Spacer 25])
       @ [Paragraph (''<b>Receipt B: '' @ cat @ '' ('' @ d @ '' Deductible)</b>'')
                body_style,
              Spacer 10] @ tb @
             [Spacer 10, Paragraph (''<b>Receipt B Total: '' @ b @ '' CAD</b>'') body_style]
       @ [Paragraph (''Tax Treatment: '' @ d @ '' deductible ('' @ cat @ '')'') body_style,
          Spacer 30,
          Paragraph ''SUMMARY'' heading_style,
          Table srows [200, 150, 150, 150] summary_table_style,
          Spacer 30,
          Paragraph compliance_note body_style,
          Spacer 40,
          Paragraph ft body_style]"
    by (simp add: blocks_def)
  then show ?thesis by blast
qed

section \<open>The sample calls, evaluated\<close>

lemma digits_small: "0 \<le> n \<Longrightarrow> n < 10 \<Longrightarrow> digits n = [digit_char n]"
  by (simp add: digits.simps)

lemma digits_step: "10 \<le> n \<Longrightarrow> digits n = digits (n div 10) @ [digit_char (n mod 10)]"
  by (subst digits.simps) simp

lemma spec_currency_1050: "spec_currency 1050 = ''$10.50''"
  by (simp add: spec_currency_def digits_step digits_small digit_char_def)

lemma spec_currency_2575: "spec_currency 2575 = ''$25.75''"
  by (simp add: spec_currency_def digits_step digits_small digit_char_def)

lemma spec_currency_3625: "spec_currency 3625 = ''$36.25''"
  by (simp add: spec_currency_def digits_step digits_small digit_char_def)

lemma dollars_1050: "dollars (PInt 1050) = Inr ''$10.50''"
  using dollars_exact [of 1050] by (simp add: spec_currency_1050)

lemma dollars_2575: "dollars (PInt 2575) = Inr ''$25.75''"
  using dollars_exact [of 2575] by (simp add: spec_currency_2575)

lemma dollars_3625: "dollars (PInt 3625) = Inr ''$36.25''"
  using dollars_exact [of 3625] by (simp add: spec_currency_3625)

lemma sample_story:
  "story sample_now sample_original sample_new [] [] = Inr sample_document"
proof -
  have 1: "original_data sample_original = Inr
       [[PStr ''Vendor:'', PStr ''Staples''],
        [PStr ''Date:'', PStr ''2024-03-15''],
        [PStr ''Original Total:'', PStr ''$10.50 CAD''],
        [PStr ''Receipt ID:'', PStr ''rcpt-202...'']]"
    by (simp add: original_data_def sample_original_def dict_get_def and_then_def slice_to_def
        dollars_1050)
  have 2: "summary_data (dict_get sample_original ''total_cents'' (PInt 0)) sample_new
         (PStr ''Meals & Entertainment'') ''50%'' = Inr
       [[PStr '''', PStr ''Receipt A'', PStr ''Receipt B'', PStr ''Total''],
        [PStr ''Subtotal + Tax'', PStr ''$10.50'', PStr ''$25.75'', PStr ''$36.25''],
        [PStr ''Tax Category'', PStr ''Office Supplies'', PStr ''Meals & Entertainment'',
         PStr em_dash],
        [PStr ''Deductibility'', PStr ''100%'', PStr ''50%'', PStr em_dash]]"
    by (simp add: summary_data_def sample_original_def sample_new_def dict_get_def and_then_def
        dollars_1050 dollars_2575 dollars_3625)
  have 3: "footer_text sample_original sample_new = Inr sample_footer"
    by (simp add: footer_text_def sample_original_def sample_new_def dict_get_def and_then_def
        slice_to_def sample_footer_def)
  have 4: "dict_get sample_new ''suggested_category'' (PStr ''Other Expenses'')
             = PStr ''Meals & Entertainment''"
    by (simp add: sample_new_def dict_get_def)
  have 5: "dollars (dict_get sample_original ''total_cents'' (PInt 0)) = Inr ''$10.50''"
    by (simp add: sample_original_def dict_get_def dollars_1050)
  have 6: "dollars (dict_get sample_new ''total_cents'' (PInt 0)) = Inr ''$25.75''"
    by (simp add: sample_new_def dict_get_def dollars_2575)
  have 7: "str_contains ''Meal'' ''Meals & Entertainment''"
    by simp
  show ?thesis
    unfolding story_Inr_iff sample_document_def
    using 1 2 3 4 5 6 7 by (simp add: items_table_Nil)
qed

lemma bare_story:
  "story sample_now bare_receipt bare_receipt [] [] = Inr bare_document"
proof -
  have 1: "original_data bare_receipt = Inr
       [[PStr ''Vendor:'', PStr ''Unknown''],
        [PStr ''Date:'', PStr ''Not specified''],
        [PStr ''Original Total:'', PStr ''$0.00 CAD''],
        [PStr ''Receipt ID:'', PStr ''...'']]"
    by (simp add: original_data_def bare_receipt_def dict_get_def and_then_def slice_to_def
        dollars_zero)
  have 2: "summary_data (dict_get bare_receipt ''total_cents'' (PInt 0)) bare_receipt
         (PStr ''Other Expenses'') ''100%'' = Inr
       [[PStr '''', PStr ''Receipt A'', PStr ''Receipt B'', PStr ''Total''],
        [PStr ''Subtotal + Tax'', PStr ''$0.00'', PStr ''$0.00'', PStr ''$0.00''],
        [PStr ''Tax Category'', PStr ''Office Supplies'', PStr ''Other Expenses'', PStr em_dash],
        [PStr ''Deductibility'', PStr ''100%'', PStr ''100%'', PStr em_dash]]"
    by (simp add: summary_data_def bare_receipt_def dict_get_def and_then_def dollars_zero)
  have 3: "footer_text bare_receipt bare_receipt = Inr bare_footer"
    by (simp add: footer_text_def bare_receipt_def dict_get_def and_then_def slice_to_def
        bare_footer_def)
  have 4: "dict_get bare_receipt ''suggested_category'' (PStr ''Other Expenses'')
             = PStr ''Other Expenses''"
    by (simp add: bare_receipt_def dict_get_def)
  have 5: "dollars (dict_get bare_receipt ''total_cents'' (PInt 0)) = Inr ''$0.00''"
    by (simp add: bare_receipt_def dict_get_def dollars_zero)
  have 7: "\<not> str_contains ''Meal'' ''Other Expenses''"
    by simp
  show ?thesis
    unfolding story_Inr_iff bare_document_def
    using 1 2 3 4 5 7 by (simp add: items_table_Nil)
qed

subsection \<open>Line items\<close>





lemma fits_str_2: "fits_str (PInt 2)"
proof -
  have "(10::int) ^ 1 \<le> 10 ^ int_max_str_digits"
    by (rule power_increasing) (simp_all add: int_max_str_digits_def)
  then show ?thesis by simp
qed


lemma counted_item_fits: "item_fits counted_item"
  using fits_str_2
  by (simp add: item_fits_def item_quantity_fits_def item_amounts_fit_def absent_or_def
      counted_item_def)



lemma long_quantity_row: "item_row long_quantity_item = Inl ValueError"
proof -
  have "dict_get long_quantity_item ''quantity'' (PInt 1) = PInt (10 ^ int_max_str_digits)"
    by (simp add: long_quantity_item_def dict_get_def)
  then show ?thesis
    by (simp only: item_row_def Let_def py_str_limit and_then_def sum.case)
qed

lemma long_quantity_unfit: "\<not> item_fits long_quantity_item"
  by (simp add: item_fits_def item_quantity_fits_def absent_or_def long_quantity_item_def)

lemma long_quantity_story:
  "story sample_now bare_receipt bare_receipt [long_quantity_item] [] = Inl ValueError"
proof -
  have 1: "original_data bare_receipt = Inr
       [[PStr ''Vendor:'', PStr ''Unknown''],
        [PStr ''Date:'', PStr ''Not specified''],
        [PStr ''Original Total:'', PStr ''$0.00 CAD''],
        [PStr ''Receipt ID:'', PStr ''...'']]"
    by (simp add: original_data_def bare_receipt_def dict_get_def and_then_def slice_to_def
        dollars_zero)
  have 2: "items_table style [long_quantity_item] = Inl ValueError" for style
    by (simp add: items_table_def and_then_def long_quantity_row)
  show ?thesis
    by (simp only: story_def 1 2 and_then_def sum.case)
qed

subsection \<open>Amounts beyond the exact range\<close>

text \<open>
  An amount of 7036874417766401 cents is rendered one cent too high, and an amount whose
  hundredth part is \<open>2 ^ 1024\<close> or more raises \<^verbatim>\<open>OverflowError\<close>.
\<close>

lemma dollars_eval:
  assumes "round_to_double (of_int n / 100) = q" "\<bar>q\<bar> < 2 ^ 1024"
    and "round_half_even (\<bar>q\<bar> * 100) = c"
  shows "dollars (PInt n) =
           Inr (''$'' @ (if q < 0 then ''-'' else '''') @ digits (c div 100) @ ''.''
                  @ [digit_char (c mod 100 div 10), digit_char (c mod 10)])"
  using assms by (simp add: dollars_def true_div_def and_then_def format_2f_def Let_def)

lemma round_to_double_drift:
  "round_to_double (of_int 7036874417766401 / 100) = 4503599627370497 / 64"
  by code_simp

lemma round_half_even_drift:
  "round_half_even (\<bar>4503599627370497 / 64\<bar> * 100) = 7036874417766402"
  by code_simp

lemma dollars_drift: "dollars (PInt 7036874417766401) = Inr ''$70368744177664.02''"
  using dollars_eval [OF round_to_double_drift _ round_half_even_drift]
  by (simp add: digits_step digits_small digit_char_def)

lemma dollars_below_drift: "dollars (PInt 7036874417766399) = Inr ''$70368744177663.99''"
  using dollars_exact [of 7036874417766399]
  by (simp add: spec_currency_def digits_step digits_small digit_char_def)

lemma dollars_2: "dollars (PInt 2) = Inr ''$0.02''"
  using dollars_exact [of 2]
  by (simp add: spec_currency_def digits_step digits_small digit_char_def)

lemma spec_currency_drift: "spec_currency 7036874417766401 = ''$70368744177664.01''"
  by (simp add: spec_currency_def digits_step digits_small digit_char_def)

lemma round_to_double_large:
  assumes "2 ^ 1024 \<le> \<bar>x\<bar>"
  shows "2 ^ 1024 \<le> \<bar>round_to_double x\<bar>"
proof -
  from assms have x0: "x \<noteq> 0" by auto
  then have xp: "0 < \<bar>x\<bar>" by simp
  define L where "L = ilog2 \<bar>x\<bar>"
  from assms have "2 powi 1024 \<le> \<bar>x\<bar>" by simp
  from ilog2_ge [OF xp this] have L: "1024 \<le> L" by (simp add: L_def)
  define s :: rat where "s = 2 powi (L - 52)"
  have s: "0 < s" by (simp add: s_def)
  from L have "max (L - 52) (- 1074) = L - 52" by simp
  then have r: "round_to_double x = of_int (round_half_even (x / s)) * s"
    using x0 by (simp add: round_to_double_def L_def s_def Let_def)
  define m where "m = round_half_even (x / s)"
  have "(2::rat) powi L = 2 powi (52 + (L - 52))" by simp
  also have "\<dots> = 2 powi 52 * 2 powi (L - 52)" by (subst power_int_add) simp_all
  finally have pL: "(2::rat) powi L = 2 ^ 52 * s" by (simp add: s_def)
  from ilog2_bounds [OF xp] have "2 powi L \<le> \<bar>x\<bar>" by (simp add: L_def)
  with pL have "2 ^ 52 * s \<le> \<bar>x\<bar>" by simp
  then have "2 ^ 52 \<le> \<bar>x\<bar> / s" using s by (simp add: pos_le_divide_eq)
  then have y: "2 ^ 52 \<le> \<bar>x / s\<bar>" using s by (simp add: abs_divide)
  have "\<bar>of_int m - x / s\<bar> \<le> 1 / 2"
    unfolding m_def by (rule round_half_even_error)
  with y have "2 ^ 52 - 1 / 2 \<le> \<bar>of_int m :: rat\<bar>" by linarith
  then have "(of_int (2 ^ 52 - 1) :: rat) < of_int \<bar>m\<bar>" by simp
  then have "2 ^ 52 - 1 < \<bar>m\<bar>" by (simp only: of_int_less_iff)
  then have "2 ^ 52 \<le> \<bar>m\<bar>" by simp
  then have "(of_int (2 ^ 52) :: rat) \<le> of_int \<bar>m\<bar>" by (simp only: of_int_le_iff)
  then have m52: "2 ^ 52 \<le> \<bar>of_int m :: rat\<bar>" by simp
  have eq: "\<bar>of_int m :: rat\<bar> * s = \<bar>round_to_double x\<bar>"
    using s by (simp add: r m_def abs_mult)
  have "(2::rat) ^ 1024 = 2 powi 1024" by simp
  also have "\<dots> \<le> 2 powi L"
    using L by (intro power_int_increasing) simp_all
  also have "\<dots> = 2 ^ 52 * s" by (rule pL)
  also have "\<dots> \<le> \<bar>of_int m :: rat\<bar> * s"
    using m52 s by (intro mult_right_mono) simp_all
  also have "\<dots> = \<bar>round_to_double x\<bar>" by (rule eq)
  finally show ?thesis .
qed

lemma dollars_overflow:
  assumes "100 * 2 ^ 1024 \<le> \<bar>n\<bar>"
  shows "dollars (PInt n) = Inl OverflowError"
proof -
  from assms have "(of_int (100 * 2 ^ 1024) :: rat) \<le> of_int \<bar>n\<bar>"
    by (simp only: of_int_le_iff)
  then have "2 ^ 1024 \<le> \<bar>of_int n / 100 :: rat\<bar>" by simp
  then have "2 ^ 1024 \<le> \<bar>round_to_double (of_int n / 100)\<bar>"
    by (rule round_to_double_large)
  then show ?thesis
    by (simp add: dollars_def true_div_def and_then_def Let_def)
qed

lemma dollars_huge: "dollars (PInt (10 ^ 400)) = Inl OverflowError"
  by (rule dollars_overflow) simp

lemma drift_story:
  "story sample_now drift_original drift_new [] [] = Inr drift_document"
proof -
  have 1: "original_data drift_original = Inr
       [[PStr ''Vendor:'', PStr ''Unknown''],
        [PStr ''Date:'', PStr ''Not specified''],
        [PStr ''Original Total:'', PStr ''$70368744177663.99 CAD''],
        [PStr ''Receipt ID:'', PStr ''...'']]"
    by (simp add: original_data_def drift_original_def dict_get_def and_then_def slice_to_def
        dollars_below_drift)
  have 2: "summary_data (dict_get drift_original ''total_cents'' (PInt 0)) drift_new
         (PStr ''Other Expenses'') ''100%'' = Inr
       [[PStr '''', PStr ''Receipt A'', PStr ''Receipt B'', PStr ''Total''],
        [PStr ''Subtotal + Tax'', PStr ''$70368744177663.99'', PStr ''$0.02'',
         PStr ''$70368744177664.02''],
        [PStr ''Tax Category'', PStr ''Office Supplies'', PStr ''Other Expenses'', PStr em_dash],
        [PStr ''Deductibility'', PStr ''100%'', PStr ''100%'', PStr em_dash]]"
    by (simp add: summary_data_def drift_original_def drift_new_def dict_get_def and_then_def
        dollars_below_drift dollars_2 dollars_drift)
  have 3: "footer_text drift_original drift_new = Inr bare_footer"
    by (simp add: footer_text_def drift_original_def drift_new_def dict_get_def and_then_def
        slice_to_def bare_footer_def)
  have 4: "dict_get drift_new ''suggested_category'' (PStr ''Other Expenses'')
             = PStr ''Other Expenses''"
    by (simp add: drift_new_def dict_get_def)
  have 5: "dollars (dict_get drift_original ''total_cents'' (PInt 0)) = Inr ''$70368744177663.99''"
    by (simp add: drift_original_def dict_get_def dollars_below_drift)
  have 6: "dollars (dict_get drift_new ''total_cents'' (PInt 0)) = Inr ''$0.02''"
    by (simp add: drift_new_def dict_get_def dollars_2)
  have 7: "\<not> str_contains ''Meal'' ''Other Expenses''"
    by simp
  show ?thesis
    unfolding story_Inr_iff drift_document_def
    using 1 2 3 4 5 6 7 by (simp add: items_table_Nil)
qed

lemma huge_story:
  "story sample_now huge_original bare_receipt [] [] = Inl OverflowError"
proof -
  have g: "dict_get huge_original ''total_cents'' (PInt 0) = PInt (10 ^ 400)"
    by (simp add: huge_original_def dict_get_def)
  have "dollars (dict_get huge_original ''total_cents'' (PInt 0)) = Inl OverflowError"
    by (simp only: g dollars_huge)
  then have "original_data huge_original = Inl OverflowError"
    by (simp only: original_data_def and_then_def sum.case)
  then show ?thesis by (simp only: story_def and_then_def sum.case)
qed

section \<open>The claims of the specification\<close>

text \<open>
  Claim C1. For every new receipt, the deductibility shown in the Receipt B label, in the
  Receipt B tax-treatment line and in the summary table is 50% if and only if the category
  (the default one when the key is absent) contains ``Meal'' as a case-sensitive
  substring, and 100% otherwise; ``Meals & Entertainment'' gives 50%, and ``meals'' and
  ``Office Supplies'' give 100%.
\<close>

theorem deductibility_rule:
  assumes "story now_text original new original_items new_items = Inr s"
  shows "(\<exists>c d r0 r1 r2.
            dict_get new ''suggested_category'' (PStr ''Other Expenses'') = PStr c \<and>
            d = (if (\<exists>ps ss. c = ps @ ''Meal'' @ ss) then ''50%'' else ''100%'') \<and>
            Paragraph (''<b>Receipt B: '' @ c @ '' ('' @ d @ '' Deductible)</b>'') body_style
              \<in> set s \<and>
            Paragraph (''Tax Treatment: '' @ d @ '' deductible ('' @ c @ '')'') body_style
              \<in> set s \<and>
            Table [r0, r1, r2, [PStr ''Deductibility'', PStr ''100%'', PStr d, PStr em_dash]]
              [200, 150, 150, 150] summary_table_style \<in> set s) \<and>
         deductible (PStr ''Meals & Entertainment'') = Inr ''50%'' \<and>
         deductible (PStr ''meals'') = Inr ''100%'' \<and>
         deductible (PStr ''Office Supplies'') = Inr ''100%''"
proof -
  from assms obtain rows ta a c tb b srows ft where
    c: "dict_get new ''suggested_category'' (PStr ''Other Expenses'') = PStr c"
    and sd: "summary_data (dict_get original ''total_cents'' (PInt 0)) new (PStr c)
          (if str_contains ''Meal'' c then ''50%'' else ''100%'') = Inr srows"
    and s: "s = blocks now_text rows ta a c
              (if str_contains ''Meal'' c then ''50%'' else ''100%'') tb b srows ft"
    unfolding story_Inr_iff by blast
  define d where "d = (if str_contains ''Meal'' c then ''50%'' else ''100%'')"
  have d: "d = (if (\<exists>ps ss. c = ps @ ''Meal'' @ ss) then ''50%'' else ''100%'')"
    unfolding d_def str_contains_iff ..
  from sd obtain r0 r1 r2 where
    srows: "srows = [r0, r1, r2, [PStr ''Deductibility'', PStr ''100%'', PStr d, PStr em_dash]]"
    unfolding summary_data_Inr_iff d_def by blast
  have l: "Paragraph (''<b>Receipt B: '' @ c @ '' ('' @ d @ '' Deductible)</b>'') body_style
      \<in> set s"
    using blocks_label_b [of c d] by (simp add: s d_def)
  have t: "Paragraph (''Tax Treatment: '' @ d @ '' deductible ('' @ c @ '')'') body_style \<in> set s"
    using blocks_treatment_b [of d c] by (simp add: s d_def)
  have m: "Table [r0, r1, r2, [PStr ''Deductibility'', PStr ''100%'', PStr d, PStr em_dash]]
              [200, 150, 150, 150] summary_table_style \<in> set s"
    using blocks_summary [of srows] by (simp add: s srows)
  have e: "deductible (PStr ''Meals & Entertainment'') = Inr ''50%''"
    "deductible (PStr ''meals'') = Inr ''100%''"
    "deductible (PStr ''Office Supplies'') = Inr ''100%''"
    by (simp_all add: deductible_Inr_iff)
  from c d l t m have "\<exists>c d r0 r1 r2.
            dict_get new ''suggested_category'' (PStr ''Other Expenses'') = PStr c \<and>
            d = (if (\<exists>ps ss. c = ps @ ''Meal'' @ ss) then ''50%'' else ''100%'') \<and>
            Paragraph (''<b>Receipt B: '' @ c @ '' ('' @ d @ '' Deductible)</b>'') body_style
              \<in> set s \<and>
            Paragraph (''Tax Treatment: '' @ d @ '' deductible ('' @ c @ '')'') body_style
              \<in> set s \<and>
            Table [r0, r1, r2, [PStr ''Deductibility'', PStr ''100%'', PStr d, PStr em_dash]]
              [200, 150, 150, 150] summary_table_style \<in> set s"
    by blast
  with e show ?thesis by blast
qed

theorem deductibility_rule_witness:
  "story sample_now sample_original sample_new [] [] = Inr sample_document \<and>
   Paragraph ''<b>Receipt B: Meals & Entertainment (50% Deductible)</b>'' body_style
     \<in> set sample_document \<and>
   Paragraph ''Tax Treatment: 50% deductible (Meals & Entertainment)'' body_style
     \<in> set sample_document \<and>
   (\<exists>r0 r1 r2. Table [r0, r1, r2, [PStr ''Deductibility'', PStr ''100%'', PStr ''50%'', PStr em_dash]]
      [200, 150, 150, 150] summary_table_style \<in> set sample_document)"
proof -
  from deductibility_rule [OF sample_story] obtain c d r0 r1 r2 where
    c: "dict_get sample_new ''suggested_category'' (PStr ''Other Expenses'') = PStr c"
    and d: "d = (if (\<exists>ps ss. c = ps @ ''Meal'' @ ss) then ''50%'' else ''100%'')"
    and l: "Paragraph (''<b>Receipt B: '' @ c @ '' ('' @ d @ '' Deductible)</b>'') body_style
              \<in> set sample_document"
    and t: "Paragraph (''Tax Treatment: '' @ d @ '' deductible ('' @ c @ '')'') body_style
              \<in> set sample_document"
    and m: "Table [r0, r1, r2, [PStr ''Deductibility'', PStr ''100%'', PStr d, PStr em_dash]]
              [200, 150, 150, 150] summary_table_style \<in> set sample_document"
    by blast
  from c have c': "c = ''Meals & Entertainment''"
    by (simp add: sample_new_def dict_get_def)
  have "str_contains ''Meal'' ''Meals & Entertainment''" by simp
  then have "\<exists>ps ss. ''Meals & Entertainment'' = ps @ ''Meal'' @ ss"
    by (simp only: str_contains_iff)
  with d have d': "d = ''50%''" unfolding c' by simp
  from l have l': "Paragraph ''<b>Receipt B: Meals & Entertainment (50% Deductible)</b>'' body_style
     \<in> set sample_document"
    unfolding c' d' by simp
  from t have t': "Paragraph ''Tax Treatment: 50% deductible (Meals & Entertainment)'' body_style
     \<in> set sample_document"
    unfolding c' d' by simp
  from m have "\<exists>r0 r1 r2.
      Table [r0, r1, r2, [PStr ''Deductibility'', PStr ''100%'', PStr ''50%'', PStr em_dash]]
      [200, 150, 150, 150] summary_table_style \<in> set sample_document"
    unfolding d' by blast
  with sample_story l' t' show ?thesis by blast
qed

text \<open>
  Claim C2, as the specification states it: for all integer \<open>total_cents\<close>, the grand total
  of the summary section is exactly the sum of the two totals, formatted as cents divided by
  100 with two decimals. It fails for large amounts: with totals of 7036874417766399 and 2
  cents the two receipts are rendered exactly, and their sum of 7036874417766401 cents,
  \<open>$70368744177664.01\<close>, is rendered as \<open>$70368744177664.02\<close>, because the double nearest
  to 70368744177664.01 is 70368744177664.015625.
\<close>

theorem grand_total_drift:
  "dict_get drift_original ''total_cents'' (PInt 0) = PInt 7036874417766399 \<and>
   dict_get drift_new ''total_cents'' (PInt 0) = PInt 2 \<and>
   story sample_now drift_original drift_new [] [] = Inr drift_document \<and>
   drift_document ! 23 =
     Table [[PStr '''', PStr ''Receipt A'', PStr ''Receipt B'', PStr ''Total''],
            [PStr ''Subtotal + Tax'', PStr ''$70368744177663.99'', PStr ''$0.02'',
             PStr ''$70368744177664.02''],
            [PStr ''Tax Category'', PStr ''Office Supplies'', PStr ''Other Expenses'', PStr em_dash],
            [PStr ''Deductibility'', PStr ''100%'', PStr ''100%'', PStr em_dash]]
       [200, 150, 150, 150] summary_table_style \<and>
   7036874417766399 + 2 = (7036874417766401 :: int) \<and>
   spec_currency 7036874417766401 = ''$70368744177664.01''"
proof -
  have 1: "dict_get drift_original ''total_cents'' (PInt 0) = PInt 7036874417766399"
    by (simp add: drift_original_def dict_get_def)
  have 2: "dict_get drift_new ''total_cents'' (PInt 0) = PInt 2"
    by (simp add: drift_new_def dict_get_def)
  have 3: "drift_document ! 23 =
     Table [[PStr '''', PStr ''Receipt A'', PStr ''Receipt B'', PStr ''Total''],
            [PStr ''Subtotal + Tax'', PStr ''$70368744177663.99'', PStr ''$0.02'',
             PStr ''$70368744177664.02''],
            [PStr ''Tax Category'', PStr ''Office Supplies'', PStr ''Other Expenses'', PStr em_dash],
            [PStr ''Deductibility'', PStr ''100%'', PStr ''100%'', PStr em_dash]]
       [200, 150, 150, 150] summary_table_style"
    by (simp add: drift_document_def blocks_def)
  from 1 2 3 drift_story spec_currency_drift show ?thesis by simp
qed

text \<open>
  Claim C2, amended: whenever the two totals and their sum are below 7036874417766400 cents
  (100 times \<open>2 ^ 46\<close>) in magnitude, the summary row shows each total and the grand total
  exactly, as cents divided by 100 with two decimals and a \<open>$\<close> prefix; 1050 and 2575
  cents give \<open>$10.50\<close>, \<open>$25.75\<close> and \<open>$36.25\<close>.
\<close>

theorem grand_total_exact:
  assumes "story now_text original new original_items new_items = Inr s"
    and "dict_get original ''total_cents'' (PInt 0) = PInt a"
    and "dict_get new ''total_cents'' (PInt 0) = PInt b"
    and "\<bar>a\<bar> < 100 * 2 ^ 46" "\<bar>b\<bar> < 100 * 2 ^ 46" "\<bar>a + b\<bar> < 100 * 2 ^ 46"
  shows "(\<exists>r0 r2 r3.
            Table [r0,
                   [PStr ''Subtotal + Tax'', PStr (spec_currency a), PStr (spec_currency b),
                    PStr (spec_currency (a + b))],
                   r2, r3]
              [200, 150, 150, 150] summary_table_style \<in> set s) \<and>
         spec_currency 1050 = ''$10.50'' \<and> spec_currency 2575 = ''$25.75'' \<and>
         spec_currency (1050 + 2575) = ''$36.25''"
proof -
  from assms(1) obtain rows ta ta' c tb tb' srows ft where
    sd: "summary_data (dict_get original ''total_cents'' (PInt 0)) new (PStr c)
          (if str_contains ''Meal'' c then ''50%'' else ''100%'') = Inr srows"
    and s: "s = blocks now_text rows ta ta' c
              (if str_contains ''Meal'' c then ''50%'' else ''100%'') tb tb' srows ft"
    unfolding story_Inr_iff by blast
  from sd obtain r0 r2 r3 x y ta tb tsum where
    x: "dict_get original ''total_cents'' (PInt 0) = PInt x"
    and y: "dict_get new ''total_cents'' (PInt 0) = PInt y"
    and da: "dollars (PInt x) = Inr ta" and db: "dollars (PInt y) = Inr tb"
    and dsum: "dollars (PInt (x + y)) = Inr tsum"
    and srows: "srows = [r0, [PStr ''Subtotal + Tax'', PStr ta, PStr tb, PStr tsum], r2, r3]"
    unfolding summary_data_Inr_iff by blast
  from x y assms(2,3) have xy: "x = a" "y = b" by simp_all
  from da dollars_exact [OF assms(4)] have ta: "ta = spec_currency a" by (simp add: xy)
  from db dollars_exact [OF assms(5)] have tb: "tb = spec_currency b" by (simp add: xy)
  from dsum dollars_exact [OF assms(6)] have tsum: "tsum = spec_currency (a + b)"
    by (simp add: xy)
  from blocks_summary [of srows] have "\<exists>r0 r2 r3.
            Table [r0,
                   [PStr ''Subtotal + Tax'', PStr (spec_currency a), PStr (spec_currency b),
                    PStr (spec_currency (a + b))],
                   r2, r3]
              [200, 150, 150, 150] summary_table_style \<in> set s"
    unfolding s srows ta tb tsum by blast
  then show ?thesis
    by (simp add: spec_currency_1050 spec_currency_2575 spec_currency_3625)
qed

theorem grand_total_exact_witness:
  "story sample_now sample_original sample_new [] [] = Inr sample_document \<and>
   dict_get sample_original ''total_cents'' (PInt 0) = PInt 1050 \<and>
   dict_get sample_new ''total_cents'' (PInt 0) = PInt 2575 \<and>
   \<bar>1050 :: int\<bar> < 100 * 2 ^ 46 \<and> \<bar>2575 :: int\<bar> < 100 * 2 ^ 46 \<and>
   \<bar>1050 + 2575 :: int\<bar> < 100 * 2 ^ 46 \<and>
   (\<exists>r0 r2 r3.
      Table [r0, [PStr ''Subtotal + Tax'', PStr ''$10.50'', PStr ''$25.75'', PStr ''$36.25''], r2, r3]
        [200, 150, 150, 150] summary_table_style \<in> set sample_document)"
proof -
  have a: "dict_get sample_original ''total_cents'' (PInt 0) = PInt 1050"
    by (simp add: sample_original_def dict_get_def)
  have b: "dict_get sample_new ''total_cents'' (PInt 0) = PInt 2575"
    by (simp add: sample_new_def dict_get_def)
  have 1: "\<bar>1050 :: int\<bar> < 100 * 2 ^ 46" and 2: "\<bar>2575 :: int\<bar> < 100 * 2 ^ 46"
    and 3: "\<bar>1050 + 2575 :: int\<bar> < 100 * 2 ^ 46"
    by simp_all
  from grand_total_exact [OF sample_story a b 1 2 3] obtain r0 r2 r3 where
    t: "Table [r0,
               [PStr ''Subtotal + Tax'', PStr (spec_currency 1050), PStr (spec_currency 2575),
                PStr (spec_currency (1050 + 2575))],
               r2, r3]
          [200, 150, 150, 150] summary_table_style \<in> set sample_document"
    and e: "spec_currency 1050 = ''$10.50''" "spec_currency 2575 = ''$25.75''"
      "spec_currency (1050 + 2575) = ''$36.25''"
    by blast
  from t have "\<exists>r0 r2 r3.
      Table [r0, [PStr ''Subtotal + Tax'', PStr ''$10.50'', PStr ''$25.75'', PStr ''$36.25''], r2, r3]
        [200, 150, 150, 150] summary_table_style \<in> set sample_document"
    unfolding e by blast
  with sample_story a b 1 2 3 show ?thesis by blast
qed

text \<open>
  Claim C3, as the specification states it: when the \<open>total_cents\<close> key is absent from a
  receipt record, the call surfaces a type or key error from the formatting step instead of
  producing a document. It fails: the code reads the key with the default 0, so a call
  whose two records have no fields at all builds its document, with \<open>$0.00\<close> for every
  total, and returns the path.
\<close>

theorem missing_total_is_no_error:
  "bare_receipt ''total_cents'' = None \<and>
   story sample_now bare_receipt bare_receipt [] [] = Inr bare_document \<and>
   bare_document ! 13 = Paragraph ''<b>Receipt A Total: $0.00 CAD</b>'' body_style \<and>
   generate_split_receipt_pdf sample_env bare_receipt bare_receipt [] [] ''split.pdf'' []
     = (Inr ''split.pdf'', [check_mark @ '' PDF generated: split.pdf''])"
proof -
  have 1: "bare_receipt ''total_cents'' = None" by (simp add: bare_receipt_def)
  have 2: "bare_document ! 13 = Paragraph ''<b>Receipt A Total: $0.00 CAD</b>'' body_style"
    by (simp add: bare_document_def blocks_def)
  have s: "story (now sample_env) bare_receipt bare_receipt [] [] = Inr bare_document"
    using bare_story by (simp add: sample_env_def)
  have b: "build sample_env (SimpleDocTemplate ''split.pdf'') bare_document = None"
    by (simp add: sample_env_def writes_file_def)
  have p: "print sample_env (check_mark @ '' PDF generated: '' @ ''split.pdf'') = None"
    by (simp add: sample_env_def writes_line_def)
  from generate_returns [OF s b p, of "[]"] 1 2 bare_story show ?thesis by simp
qed

text \<open>
  Claim C3, amended: when the \<open>total_cents\<close> key is absent from a receipt record, no error
  surfaces for it. The amount is taken as 0: with the identifiers and the category strings,
  the amounts that are present integers in the range of a double, the quantities that are
  present within the limit of the conversion to text, an engine that writes the file for
  the story of the call and an output stream that takes the notice, the call builds its
  document and returns the path, and the totals of a record without the key are rendered
  as \<open>$0.00\<close>.
\<close>

theorem missing_total_defaults_to_zero:
  assumes "absent_or is_str original ''id''" "absent_or is_str new ''id''"
    and "absent_or is_str new ''suggested_category''"
    and "receipt_amount_fits original" "receipt_amount_fits new"
    and "list_all item_fits original_items" "list_all item_fits new_items"
    and "\<forall>s. story (now env) original new original_items new_items = Inr s
           \<longrightarrow> build env (SimpleDocTemplate output_path) s = None"
    and "print env (check_mark @ '' PDF generated: '' @ output_path) = None"
  shows "\<exists>s. story (now env) original new original_items new_items = Inr s \<and>
           fst (generate_split_receipt_pdf env original new original_items new_items
                  output_path console) = Inr output_path \<and>
           (original ''total_cents'' = None \<longrightarrow>
              (\<exists>r0 r1 r3. s ! 6 = Table [r0, r1, [PStr ''Original Total:'', PStr ''$0.00 CAD''], r3]
                                    [150, 450] original_table_style) \<and>
              Paragraph ''<b>Receipt A Total: $0.00 CAD</b>'' body_style \<in> set s) \<and>
           (new ''total_cents'' = None \<longrightarrow>
              Paragraph ''<b>Receipt B Total: $0.00 CAD</b>'' body_style \<in> set s)"
proof -
  from story_succeeds [OF assms(1-7)] obtain s where
    st: "story (now env) original new original_items new_items = Inr s" by blast
  with assms(8) have "build env (SimpleDocTemplate output_path) s = None" by blast
  from generate_returns [OF st this assms(9)]
  have g: "fst (generate_split_receipt_pdf env original new original_items new_items
                  output_path console) = Inr output_path"
    by simp
  from st obtain rows ta a c tb b srows ft where
    od: "original_data original = Inr rows"
    and a: "dollars (dict_get original ''total_cents'' (PInt 0)) = Inr a"
    and b: "dollars (dict_get new ''total_cents'' (PInt 0)) = Inr b"
    and s: "s = blocks (now env) rows ta a c
              (if str_contains ''Meal'' c then ''50%'' else ''100%'') tb b srows ft"
    unfolding story_Inr_iff by blast
  from od a obtain r0 r1 r3 where
    rows: "rows = [r0, r1, [PStr ''Original Total:'', PStr (a @ '' CAD'')], r3]"
    unfolding original_data_Inr_iff by auto
  have A: "(\<exists>r0 r1 r3. s ! 6 = Table [r0, r1, [PStr ''Original Total:'', PStr ''$0.00 CAD''], r3]
                                    [150, 450] original_table_style) \<and>
              Paragraph ''<b>Receipt A Total: $0.00 CAD</b>'' body_style \<in> set s"
    if "original ''total_cents'' = None"
  proof -
    from a that have a0: "a = ''$0.00''" by (simp add: dict_get_absent dollars_zero)
    have "s ! 6 = Table [r0, r1, [PStr ''Original Total:'', PStr ''$0.00 CAD''], r3]
                    [150, 450] original_table_style"
      unfolding s blocks_nth_6 rows a0 by simp
    moreover have "Paragraph ''<b>Receipt A Total: $0.00 CAD</b>'' body_style \<in> set s"
      using blocks_total_a [of "''$0.00''"] unfolding s a0 by simp
    ultimately show ?thesis by blast
  qed
  have B: "Paragraph ''<b>Receipt B Total: $0.00 CAD</b>'' body_style \<in> set s"
    if "new ''total_cents'' = None"
  proof -
    from b that have b0: "b = ''$0.00''" by (simp add: dict_get_absent dollars_zero)
    show ?thesis
      using blocks_total_b [of "''$0.00''"] unfolding s b0 by simp
  qed
  from A have A': "original ''total_cents'' = None \<longrightarrow>
              (\<exists>r0 r1 r3. s ! 6 = Table [r0, r1, [PStr ''Original Total:'', PStr ''$0.00 CAD''], r3]
                                    [150, 450] original_table_style) \<and>
              Paragraph ''<b>Receipt A Total: $0.00 CAD</b>'' body_style \<in> set s"
    by (rule impI)
  from B have B': "new ''total_cents'' = None \<longrightarrow>
              Paragraph ''<b>Receipt B Total: $0.00 CAD</b>'' body_style \<in> set s"
    by (rule impI)
  show ?thesis
    by (rule exI [of _ s]) (intro conjI st g A' B')
qed

theorem missing_total_defaults_to_zero_witness:
  "absent_or is_str bare_receipt ''id'' \<and> absent_or is_str bare_receipt ''suggested_category'' \<and>
   receipt_amount_fits bare_receipt \<and> list_all item_fits [empty_item] \<and>
   (\<forall>s. build sample_env (SimpleDocTemplate ''split.pdf'') s = None) \<and>
   print sample_env (check_mark @ '' PDF generated: '' @ ''split.pdf'') = None \<and>
   bare_receipt ''total_cents'' = None \<and>
   (\<exists>s. story (now sample_env) bare_receipt bare_receipt [empty_item] [empty_item] = Inr s \<and>
      fst (generate_split_receipt_pdf sample_env bare_receipt bare_receipt [empty_item]
             [empty_item] ''split.pdf'' [])
        = Inr ''split.pdf'' \<and>
      (\<exists>r0 r1 r3. s ! 6 = Table [r0, r1, [PStr ''Original Total:'', PStr ''$0.00 CAD''], r3]
                            [150, 450] original_table_style) \<and>
      Paragraph ''<b>Receipt A Total: $0.00 CAD</b>'' body_style \<in> set s \<and>
      Paragraph ''<b>Receipt B Total: $0.00 CAD</b>'' body_style \<in> set s)"
proof -
  have 1: "absent_or is_str bare_receipt ''id''"
    and 2: "absent_or is_str bare_receipt ''suggested_category''"
    and 3: "receipt_amount_fits bare_receipt"
    by (simp_all add: absent_or_def bare_receipt_def receipt_amount_fits_def)
  have 4: "list_all item_fits [empty_item]"
    by (simp add: item_fits_def item_quantity_fits_def item_amounts_fit_def absent_or_def
        empty_item_def)
  have 5: "\<forall>s. build sample_env (SimpleDocTemplate ''split.pdf'') s = None"
    by (simp add: sample_env_def writes_file_def)
  then have 50: "\<forall>s. story (now sample_env) bare_receipt bare_receipt [empty_item] [empty_item]
                  = Inr s
      \<longrightarrow> build sample_env (SimpleDocTemplate ''split.pdf'') s = None"
    by simp
  have 6: "print sample_env (check_mark @ '' PDF generated: '' @ ''split.pdf'') = None"
    by (simp add: sample_env_def writes_line_def)
  have 7: "bare_receipt ''total_cents'' = None" by (simp add: bare_receipt_def)
  from missing_total_defaults_to_zero [OF 1 1 2 3 3 4 4 50 6, of "[]"] 7
  have "\<exists>s. story (now sample_env) bare_receipt bare_receipt [empty_item] [empty_item] = Inr s \<and>
      fst (generate_split_receipt_pdf sample_env bare_receipt bare_receipt [empty_item]
             [empty_item] ''split.pdf'' [])
        = Inr ''split.pdf'' \<and>
      (\<exists>r0 r1 r3. s ! 6 = Table [r0, r1, [PStr ''Original Total:'', PStr ''$0.00 CAD''], r3]
                            [150, 450] original_table_style) \<and>
      Paragraph ''<b>Receipt A Total: $0.00 CAD</b>'' body_style \<in> set s \<and>
      Paragraph ''<b>Receipt B Total: $0.00 CAD</b>'' body_style \<in> set s"
    by blast
  with 1 2 3 4 5 6 7 show ?thesis by blast
qed

text \<open>
  Claim C4, as the specification states it: for every well-typed input with a writable
  output path, the call returns the path it was given. It fails for an integer total beyond
  the range of a double: with \<open>total_cents\<close> equal to \<open>10 ^ 400\<close> the division by 100
  raises \<open>OverflowError\<close>, and the call ends there, with an engine that would have written
  the file.
\<close>

theorem huge_total_overflows:
  "well_typed_receipt huge_original \<and> well_typed_receipt bare_receipt \<and>
   list_all well_typed_item [] \<and>
   build sample_env (SimpleDocTemplate ''split.pdf'') = writes_file (SimpleDocTemplate ''split.pdf'') \<and>
   generate_split_receipt_pdf sample_env huge_original bare_receipt [] [] ''split.pdf'' []
     = (Inl OverflowError, [])"
proof -
  have 1: "well_typed_receipt huge_original"
    by (simp add: well_typed_receipt_def absent_or_def huge_original_def)
  have 2: "well_typed_receipt bare_receipt"
    by (simp add: well_typed_receipt_def absent_or_def bare_receipt_def)
  have 3: "build sample_env (SimpleDocTemplate ''split.pdf'')
             = writes_file (SimpleDocTemplate ''split.pdf'')"
    by (simp add: sample_env_def)
  have s: "story (now sample_env) huge_original bare_receipt [] [] = Inl OverflowError"
    using huge_story by (simp add: sample_env_def)
  from generate_raises [OF s, of "''split.pdf''" "[]"] 1 2 3 show ?thesis by simp
qed

text \<open>
  Claim C4, amended: for every well-typed input whose amounts are integers below
  \<open>2 ^ 1024\<close> in magnitude (the range of a double) and whose quantities are below
  \<open>10 ^ 4300\<close> in magnitude (the limit of the conversion of an integer to text), an engine
  that writes the file at the output path for the story of the call, and an output stream
  that takes the notice, the call returns the very path it was given, after printing its
  notice.
\<close>

theorem returns_output_path:
  assumes "well_typed_receipt original" "well_typed_receipt new"
    and "list_all well_typed_item original_items" "list_all well_typed_item new_items"
    and "receipt_amount_fits original" "receipt_amount_fits new"
    and "list_all item_fits original_items" "list_all item_fits new_items"
    and "\<forall>s. story (now env) original new original_items new_items = Inr s
           \<longrightarrow> build env (SimpleDocTemplate output_path) s = None"
    and "print env (check_mark @ '' PDF generated: '' @ output_path) = None"
  shows "generate_split_receipt_pdf env original new original_items new_items output_path console
           = (Inr output_path, console @ [check_mark @ '' PDF generated: '' @ output_path])"
proof -
  from assms(1,2) have "absent_or is_str original ''id''" "absent_or is_str new ''id''"
    "absent_or is_str new ''suggested_category''"
    by (simp_all add: well_typed_receipt_def)
  from story_succeeds [OF this assms(5-8)] obtain s where
    st: "story (now env) original new original_items new_items = Inr s" by blast
  with assms(9) have "build env (SimpleDocTemplate output_path) s = None" by blast
  from generate_returns [OF st this assms(10)] show ?thesis .
qed

theorem returns_output_path_witness:
  "well_typed_receipt sample_original \<and> well_typed_receipt sample_new \<and>
   list_all well_typed_item [sample_item] \<and> list_all well_typed_item [counted_item] \<and>
   receipt_amount_fits sample_original \<and> receipt_amount_fits sample_new \<and>
   list_all item_fits [sample_item] \<and> list_all item_fits [counted_item] \<and>
   (\<forall>s. build sample_env (SimpleDocTemplate ''split.pdf'') s = None) \<and>
   print sample_env (check_mark @ '' PDF generated: '' @ ''split.pdf'') = None \<and>
   generate_split_receipt_pdf sample_env sample_original sample_new [sample_item] [counted_item]
       ''split.pdf'' []
     = (Inr ''split.pdf'', [] @ [check_mark @ '' PDF generated: '' @ ''split.pdf''])"
proof -
  have 1: "well_typed_receipt sample_original"
    by (simp add: well_typed_receipt_def absent_or_def sample_original_def)
  have 2: "well_typed_receipt sample_new"
    by (simp add: well_typed_receipt_def absent_or_def sample_new_def)
  have 3: "list_all well_typed_item [sample_item]"
    by (simp add: well_typed_item_def absent_or_def sample_item_def)
  have 4: "list_all well_typed_item [counted_item]"
    by (simp add: well_typed_item_def absent_or_def counted_item_def)
  have 5: "receipt_amount_fits sample_original"
    by (simp add: receipt_amount_fits_def absent_or_def sample_original_def)
  have 6: "receipt_amount_fits sample_new"
    by (simp add: receipt_amount_fits_def absent_or_def sample_new_def)
  have 7: "list_all item_fits [sample_item]"
    by (simp add: item_fits_def item_quantity_fits_def item_amounts_fit_def absent_or_def
        sample_item_def)
  have 8: "list_all item_fits [counted_item]"
    using counted_item_fits by simp
  have 9: "\<forall>s. build sample_env (SimpleDocTemplate ''split.pdf'') s = None"
    by (simp add: sample_env_def writes_file_def)
  then have 90: "\<forall>s. story (now sample_env) sample_original sample_new [sample_item]
                   [counted_item] = Inr s
      \<longrightarrow> build sample_env (SimpleDocTemplate ''split.pdf'') s = None"
    by simp
  have 10: "print sample_env (check_mark @ '' PDF generated: '' @ ''split.pdf'') = None"
    by (simp add: sample_env_def writes_line_def)
  from returns_output_path [OF 1 2 3 4 5 6 7 8 90 10, of "[]"] 1 2 3 4 5 6 7 8 9 10
  show ?thesis by blast
qed

text \<open>
  Claim C5. For every call whose \<open>original_items\<close> (respectively \<open>new_items\<close>) is
  the empty list, no item table is emitted for that receipt: the spacer and the bold total
  line follow the label and its spacer directly, and no table in the document has the
  style of that receipt's item table. The total line is there all the same, and its
  amount is the formatted \<open>total_cents\<close> of the receipt record.
\<close>

theorem empty_items_no_table:
  assumes "story now_text original new original_items new_items = Inr s"
  shows "(original_items = [] \<longrightarrow>
            (\<exists>t pre post.
               dollars (dict_get original ''total_cents'' (PInt 0)) = Inr t \<and>
               s = pre @ [Paragraph ''<b>Receipt A: Office Supplies (100% Deductible)</b>'' body_style,
                          Spacer 10,
                          Spacer 10,
                          Paragraph (''<b>Receipt A Total: '' @ t @ '' CAD</b>'') body_style] @ post) \<and>
            (\<forall>rows widths. Table rows widths (items_table_style ''#f3f4f6'' ''#e5e7eb'') \<notin> set s)) \<and>
         (new_items = [] \<longrightarrow>
            (\<exists>t c d pre post.
               dollars (dict_get new ''total_cents'' (PInt 0)) = Inr t \<and>
               s = pre @ [Paragraph (''<b>Receipt B: '' @ c @ '' ('' @ d @ '' Deductible)</b>'')
                            body_style,
                          Spacer 10,
                          Spacer 10,
                          Paragraph (''<b>Receipt B Total: '' @ t @ '' CAD</b>'') body_style] @ post) \<and>
            (\<forall>rows widths. Table rows widths (items_table_style ''#fef3c7'' ''#fbbf24'') \<notin> set s))"
proof -
  from assms obtain rows ta a c tb b srows ft where
    ta: "items_table (items_table_style ''#f3f4f6'' ''#e5e7eb'') original_items = Inr ta"
    and a: "dollars (dict_get original ''total_cents'' (PInt 0)) = Inr a"
    and tb: "items_table (items_table_style ''#fef3c7'' ''#fbbf24'') new_items = Inr tb"
    and b: "dollars (dict_get new ''total_cents'' (PInt 0)) = Inr b"
    and s: "s = blocks now_text rows ta a c
              (if str_contains ''Meal'' c then ''50%'' else ''100%'') tb b srows ft"
    unfolding story_Inr_iff by blast
  define d where "d = (if str_contains ''Meal'' c then ''50%'' else ''100%'')"
  have A: "(\<exists>t pre post.
               dollars (dict_get original ''total_cents'' (PInt 0)) = Inr t \<and>
               s = pre @ [Paragraph ''<b>Receipt A: Office Supplies (100% Deductible)</b>'' body_style,
                          Spacer 10,
                          Spacer 10,
                          Paragraph (''<b>Receipt A Total: '' @ t @ '' CAD</b>'') body_style] @ post) \<and>
            (\<forall>rows widths. Table rows widths (items_table_style ''#f3f4f6'' ''#e5e7eb'') \<notin> set s)"
    if empty: "original_items = []"
  proof -
    from ta empty have ta0: "ta = []" by (simp add: items_table_Nil)
    from blocks_receipt_a [of now_text rows "[]" a c d tb b srows ft]
    obtain pre post where
      "s = pre @ [Paragraph ''<b>Receipt A: Office Supplies (100% Deductible)</b>'' body_style,
                  Spacer 10,
                  Spacer 10,
                  Paragraph (''<b>Receipt A Total: '' @ a @ '' CAD</b>'') body_style] @ post"
      unfolding s ta0 d_def by auto
    with a have 1: "\<exists>t pre post.
               dollars (dict_get original ''total_cents'' (PInt 0)) = Inr t \<and>
               s = pre @ [Paragraph ''<b>Receipt A: Office Supplies (100% Deductible)</b>'' body_style,
                          Spacer 10,
                          Spacer 10,
                          Paragraph (''<b>Receipt A Total: '' @ t @ '' CAD</b>'') body_style] @ post"
      by blast
    have 2: "Table r w (items_table_style ''#f3f4f6'' ''#e5e7eb'') \<notin> set s" for r w
    proof
      assume "Table r w (items_table_style ''#f3f4f6'' ''#e5e7eb'') \<in> set s"
      then have "Table r w (items_table_style ''#f3f4f6'' ''#e5e7eb'') \<in> set tb"
        unfolding s blocks_tables ta0 by simp
      from items_table_style [OF tb this] show False by simp
    qed
    from 1 2 show ?thesis by blast
  qed
  have B: "(\<exists>t c d pre post.
               dollars (dict_get new ''total_cents'' (PInt 0)) = Inr t \<and>
               s = pre @ [Paragraph (''<b>Receipt B: '' @ c @ '' ('' @ d @ '' Deductible)</b>'')
                            body_style,
                          Spacer 10,
                          Spacer 10,
                          Paragraph (''<b>Receipt B Total: '' @ t @ '' CAD</b>'') body_style] @ post) \<and>
            (\<forall>rows widths. Table rows widths (items_table_style ''#fef3c7'' ''#fbbf24'') \<notin> set s)"
    if empty: "new_items = []"
  proof -
    from tb empty have tb0: "tb = []" by (simp add: items_table_Nil)
    from blocks_receipt_b [of now_text rows ta a c d "[]" b srows ft]
    obtain pre post where
      "s = pre @ [Paragraph (''<b>Receipt B: '' @ c @ '' ('' @ d @ '' Deductible)</b>'') body_style,
                  Spacer 10,
                  Spacer 10,
                  Paragraph (''<b>Receipt B Total: '' @ b @ '' CAD</b>'') body_style] @ post"
      unfolding s tb0 d_def by auto
    with b have 1: "\<exists>t c d pre post.
               dollars (dict_get new ''total_cents'' (PInt 0)) = Inr t \<and>
               s = pre @ [Paragraph (''<b>Receipt B: '' @ c @ '' ('' @ d @ '' Deductible)</b>'')
                            body_style,
                          Spacer 10,
                          Spacer 10,
                          Paragraph (''<b>Receipt B Total: '' @ t @ '' CAD</b>'') body_style] @ post"
      by blast
    have 2: "Table r w (items_table_style ''#fef3c7'' ''#fbbf24'') \<notin> set s" for r w
    proof
      assume "Table r w (items_table_style ''#fef3c7'' ''#fbbf24'') \<in> set s"
      then have "Table r w (items_table_style ''#fef3c7'' ''#fbbf24'') \<in> set ta"
        unfolding s blocks_tables tb0 by simp
      from items_table_style [OF ta this] show False by simp
    qed
    from 1 2 show ?thesis by blast
  qed
  from A B show ?thesis by blast
qed

theorem empty_items_no_table_witness:
  "story sample_now sample_original sample_new [] [] = Inr sample_document \<and>
   (\<exists>pre post. sample_document =
      pre @ [Paragraph ''<b>Receipt A: Office Supplies (100% Deductible)</b>'' body_style,
             Spacer 10,
             Spacer 10,
             Paragraph ''<b>Receipt A Total: $10.50 CAD</b>'' body_style] @ post) \<and>
   (\<forall>rows widths. Table rows widths (items_table_style ''#f3f4f6'' ''#e5e7eb'')
      \<notin> set sample_document) \<and>
   (\<exists>c d pre post. sample_document =
      pre @ [Paragraph (''<b>Receipt B: '' @ c @ '' ('' @ d @ '' Deductible)</b>'') body_style,
             Spacer 10,
             Spacer 10,
             Paragraph ''<b>Receipt B Total: $25.75 CAD</b>'' body_style] @ post) \<and>
   (\<forall>rows widths. Table rows widths (items_table_style ''#fef3c7'' ''#fbbf24'')
      \<notin> set sample_document)"
proof -
  note th = empty_items_no_table [OF sample_story]
  from th obtain t pre post where
    t: "dollars (dict_get sample_original ''total_cents'' (PInt 0)) = Inr t"
    and a: "sample_document =
      pre @ [Paragraph ''<b>Receipt A: Office Supplies (100% Deductible)</b>'' body_style,
             Spacer 10,
             Spacer 10,
             Paragraph (''<b>Receipt A Total: '' @ t @ '' CAD</b>'') body_style] @ post"
    by blast
  from t have "t = ''$10.50''"
    by (simp add: sample_original_def dict_get_def dollars_1050)
  with a have A: "\<exists>pre post. sample_document =
      pre @ [Paragraph ''<b>Receipt A: Office Supplies (100% Deductible)</b>'' body_style,
             Spacer 10,
             Spacer 10,
             Paragraph ''<b>Receipt A Total: $10.50 CAD</b>'' body_style] @ post"
    by auto
  from th obtain u c d pre' post' where
    u: "dollars (dict_get sample_new ''total_cents'' (PInt 0)) = Inr u"
    and b: "sample_document =
      pre' @ [Paragraph (''<b>Receipt B: '' @ c @ '' ('' @ d @ '' Deductible)</b>'') body_style,
             Spacer 10,
             Spacer 10,
             Paragraph (''<b>Receipt B Total: '' @ u @ '' CAD</b>'') body_style] @ post'"
    by blast
  from u have "u = ''$25.75''"
    by (simp add: sample_new_def dict_get_def dollars_2575)
  with b have B: "\<exists>c d pre post. sample_document =
      pre @ [Paragraph (''<b>Receipt B: '' @ c @ '' ('' @ d @ '' Deductible)</b>'') body_style,
             Spacer 10,
             Spacer 10,
             Paragraph ''<b>Receipt B Total: $25.75 CAD</b>'' body_style] @ post"
    by auto
  from th have C: "\<forall>rows widths. Table rows widths (items_table_style ''#f3f4f6'' ''#e5e7eb'')
      \<notin> set sample_document"
    and D: "\<forall>rows widths. Table rows widths (items_table_style ''#fef3c7'' ''#fbbf24'')
      \<notin> set sample_document"
    by blast+
  from sample_story A B C D show ?thesis by blast
qed

text \<open>
  Claim C6. For every receipt id, the same id appears cut to its first 8 characters and
  followed by an ellipsis in the ORIGINAL RECEIPT table, and cut to its first 16
  characters and followed by an ellipsis in the footer, both in the same document; when
  the id is absent or empty what is shown is just the ellipsis.
\<close>

theorem receipt_id_truncation:
  assumes "story now_text original new original_items new_items = Inr s"
  shows \<open>\<exists>rid nid r0 r1 r2.
           dict_get original ''id'' (PStr '''') = PStr rid \<and>
           dict_get new ''id'' (PStr '''') = PStr nid \<and>
           s ! 6 = Table [r0, r1, r2, [PStr ''Receipt ID:'', PStr (take 8 rid @ ''...'')]]
                     [150, 450] original_table_style \<and>
           last s = Paragraph
             (''\<newline>    <para alignment="center" fontSize="8" textColor="#9ca3af">'' @
              ''\<newline>    This document was automatically generated by the Receipt Management System.<br/>'' @
              ''\<newline>    Original Receipt ID: '' @ take 16 rid @ ''...<br/>'' @
              ''\<newline>    New Receipt ID: '' @ take 16 nid @ ''...'' @
              ''\<newline>    </para>'' @
              ''\<newline>    '') body_style \<and>
           (original ''id'' = None \<or> original ''id'' = Some (PStr '''')
              \<longrightarrow> take 8 rid @ ''...'' = ''...'' \<and> take 16 rid @ ''...'' = ''...'')\<close>
proof -
  from assms obtain rows ta a c tb b srows ft where
    od: "original_data original = Inr rows"
    and ft: "footer_text original new = Inr ft"
    and s: "s = blocks now_text rows ta a c
              (if str_contains ''Meal'' c then ''50%'' else ''100%'') tb b srows ft"
    unfolding story_Inr_iff by blast
  from od obtain rid r0 r1 r2 where
    rid: "dict_get original ''id'' (PStr '''') = PStr rid"
    and rows: "rows = [r0, r1, r2, [PStr ''Receipt ID:'', PStr (take 8 rid @ ''...'')]]"
    unfolding original_data_Inr_iff by blast
  from ft rid obtain nid where
    nid: "dict_get new ''id'' (PStr '''') = PStr nid"
    and ft': \<open>ft = ''\<newline>    <para alignment="center" fontSize="8" textColor="#9ca3af">'' @
              ''\<newline>    This document was automatically generated by the Receipt Management System.<br/>'' @
              ''\<newline>    Original Receipt ID: '' @ take 16 rid @ ''...<br/>'' @
              ''\<newline>    New Receipt ID: '' @ take 16 nid @ ''...'' @
              ''\<newline>    </para>'' @
              ''\<newline>    ''\<close>
    unfolding footer_text_Inr_iff by auto
  have e: "original ''id'' = None \<or> original ''id'' = Some (PStr '''') \<longrightarrow> rid = ''''"
    using rid by (auto simp: dict_get_def)
  have 6: "s ! 6 = Table [r0, r1, r2, [PStr ''Receipt ID:'', PStr (take 8 rid @ ''...'')]]
                     [150, 450] original_table_style"
    unfolding s rows by (rule blocks_nth_6)
  have l: "last s = Paragraph ft body_style"
    unfolding s by (rule blocks_last)
  from e have e': "original ''id'' = None \<or> original ''id'' = Some (PStr '''')
      \<longrightarrow> take 8 rid @ ''...'' = ''...'' \<and> take 16 rid @ ''...'' = ''...''"
    by auto
  show ?thesis
    using rid nid 6 l [unfolded ft'] e' by blast
qed

theorem receipt_id_truncation_witness:
  \<open>story sample_now sample_original sample_new [] [] = Inr sample_document \<and>
   (\<exists>r0 r1 r2. sample_document ! 6 =
      Table [r0, r1, r2, [PStr ''Receipt ID:'', PStr ''rcpt-202...'']]
        [150, 450] original_table_style) \<and>
   last sample_document = Paragraph
     (''\<newline>    <para alignment="center" fontSize="8" textColor="#9ca3af">'' @
      ''\<newline>    This document was automatically generated by the Receipt Management System.<br/>'' @
      ''\<newline>    Original Receipt ID: rcpt-2024-000123...<br/>'' @
      ''\<newline>    New Receipt ID: rcpt-2024-000124...'' @
      ''\<newline>    </para>'' @
      ''\<newline>    '') body_style \<and>
   story sample_now bare_receipt bare_receipt [] [] = Inr bare_document \<and>
   (\<exists>r0 r1 r2. bare_document ! 6 =
      Table [r0, r1, r2, [PStr ''Receipt ID:'', PStr ''...'']] [150, 450] original_table_style)\<close>
proof -
  from receipt_id_truncation [OF sample_story] obtain rid nid r0 r1 r2 where
    rid: "dict_get sample_original ''id'' (PStr '''') = PStr rid"
    and nid: "dict_get sample_new ''id'' (PStr '''') = PStr nid"
    and 6: "sample_document ! 6 =
              Table [r0, r1, r2, [PStr ''Receipt ID:'', PStr (take 8 rid @ ''...'')]]
                [150, 450] original_table_style"
    and l: \<open>last sample_document = Paragraph
             (''\<newline>    <para alignment="center" fontSize="8" textColor="#9ca3af">'' @
              ''\<newline>    This document was automatically generated by the Receipt Management System.<br/>'' @
              ''\<newline>    Original Receipt ID: '' @ take 16 rid @ ''...<br/>'' @
              ''\<newline>    New Receipt ID: '' @ take 16 nid @ ''...'' @
              ''\<newline>    </para>'' @
              ''\<newline>    '') body_style\<close>
    by blast
  from rid have rid': "rid = ''rcpt-2024-000123-original''"
    by (simp add: sample_original_def dict_get_def)
  from nid have nid': "nid = ''rcpt-2024-000124-split''"
    by (simp add: sample_new_def dict_get_def)
  from 6 have A: "\<exists>r0 r1 r2. sample_document ! 6 =
      Table [r0, r1, r2, [PStr ''Receipt ID:'', PStr ''rcpt-202...'']]
        [150, 450] original_table_style"
    unfolding rid' by simp
  from l have B: \<open>last sample_document = Paragraph
     (''\<newline>    <para alignment="center" fontSize="8" textColor="#9ca3af">'' @
      ''\<newline>    This document was automatically generated by the Receipt Management System.<br/>'' @
      ''\<newline>    Original Receipt ID: rcpt-2024-000123...<br/>'' @
      ''\<newline>    New Receipt ID: rcpt-2024-000124...'' @
      ''\<newline>    </para>'' @
      ''\<newline>    '') body_style\<close>
    unfolding rid' nid' by simp
  from receipt_id_truncation [OF bare_story] obtain rid0 q0 q1 q2 where
    6: "bare_document ! 6 =
              Table [q0, q1, q2, [PStr ''Receipt ID:'', PStr (take 8 rid0 @ ''...'')]]
                [150, 450] original_table_style"
    and e: "bare_receipt ''id'' = None \<or> bare_receipt ''id'' = Some (PStr '''')
              \<longrightarrow> take 8 rid0 @ ''...'' = ''...'' \<and> take 16 rid0 @ ''...'' = ''...''"
    by blast
  have "bare_receipt ''id'' = None" by (simp add: bare_receipt_def)
  with e have "take 8 rid0 @ ''...'' = ''...''" by blast
  with 6 have C: "\<exists>r0 r1 r2. bare_document ! 6 =
      Table [r0, r1, r2, [PStr ''Receipt ID:'', PStr ''...'']] [150, 450] original_table_style"
    by simp
  from sample_story bare_story A B C show ?thesis by blast
qed

text \<open>
  Claim C7. For every input whose optional fields are missing: an absent vendor is shown
  as ``Unknown'', an absent receipt date as ``Not specified'', and an absent suggested
  category of the new receipt is taken as ``Other Expenses'' wherever the category is
  used: in the Receipt B label, in its tax-treatment line, in the summary table, and in
  the deductibility rule (which gives 100% for it).
\<close>

theorem missing_fields_defaults:
  assumes "story now_text original new original_items new_items = Inr s"
  shows "(original ''vendor'' = None \<longrightarrow>
            (\<exists>r1 r2 r3. s ! 6 = Table [[PStr ''Vendor:'', PStr ''Unknown''], r1, r2, r3]
                                  [150, 450] original_table_style)) \<and>
         (original ''receipt_date'' = None \<longrightarrow>
            (\<exists>r0 r2 r3. s ! 6 = Table [r0, [PStr ''Date:'', PStr ''Not specified''], r2, r3]
                                  [150, 450] original_table_style)) \<and>
         (new ''suggested_category'' = None \<longrightarrow>
            Paragraph ''<b>Receipt B: Other Expenses (100% Deductible)</b>'' body_style \<in> set s \<and>
            Paragraph ''Tax Treatment: 100% deductible (Other Expenses)'' body_style \<in> set s \<and>
            (\<exists>r0 r1. Table [r0, r1,
                             [PStr ''Tax Category'', PStr ''Office Supplies'',
                              PStr ''Other Expenses'', PStr em_dash],
                             [PStr ''Deductibility'', PStr ''100%'', PStr ''100%'', PStr em_dash]]
                        [200, 150, 150, 150] summary_table_style \<in> set s))"
proof -
  from assms obtain rows ta a c tb b srows ft where
    od: "original_data original = Inr rows"
    and c: "dict_get new ''suggested_category'' (PStr ''Other Expenses'') = PStr c"
    and sd: "summary_data (dict_get original ''total_cents'' (PInt 0)) new (PStr c)
          (if str_contains ''Meal'' c then ''50%'' else ''100%'') = Inr srows"
    and s: "s = blocks now_text rows ta a c
              (if str_contains ''Meal'' c then ''50%'' else ''100%'') tb b srows ft"
    unfolding story_Inr_iff by blast
  have 6: "s ! 6 = Table rows [150, 450] original_table_style"
    unfolding s by (rule blocks_nth_6)
  from od obtain r2 r3 where
    rows: "rows = [[PStr ''Vendor:'', dict_get original ''vendor'' (PStr ''Unknown'')],
                   [PStr ''Date:'', dict_get original ''receipt_date'' (PStr ''Not specified'')],
                   r2, r3]"
    unfolding original_data_Inr_iff by blast
  have V: "\<exists>r1 r2 r3. s ! 6 = Table [[PStr ''Vendor:'', PStr ''Unknown''], r1, r2, r3]
                                  [150, 450] original_table_style"
    if "original ''vendor'' = None"
    using 6 rows that by (simp add: dict_get_absent)
  have D: "\<exists>r0 r2 r3. s ! 6 = Table [r0, [PStr ''Date:'', PStr ''Not specified''], r2, r3]
                                  [150, 450] original_table_style"
    if "original ''receipt_date'' = None"
    using 6 rows that by (simp add: dict_get_absent)
  have C: "Paragraph ''<b>Receipt B: Other Expenses (100% Deductible)</b>'' body_style \<in> set s \<and>
            Paragraph ''Tax Treatment: 100% deductible (Other Expenses)'' body_style \<in> set s \<and>
            (\<exists>r0 r1. Table [r0, r1,
                             [PStr ''Tax Category'', PStr ''Office Supplies'',
                              PStr ''Other Expenses'', PStr em_dash],
                             [PStr ''Deductibility'', PStr ''100%'', PStr ''100%'', PStr em_dash]]
                        [200, 150, 150, 150] summary_table_style \<in> set s)"
    if absent: "new ''suggested_category'' = None"
  proof -
    from c absent have c': "c = ''Other Expenses''" by (simp add: dict_get_absent)
    have ded: "(if str_contains ''Meal'' ''Other Expenses'' then ''50%'' else ''100%'') = ''100%''"
      by simp
    have s': "s = blocks now_text rows ta a ''Other Expenses'' ''100%'' tb b srows ft"
      using s unfolding c' ded .
    have l: "Paragraph ''<b>Receipt B: Other Expenses (100% Deductible)</b>'' body_style \<in> set s"
      using blocks_label_b [of "''Other Expenses''" "''100%''"] by (simp add: s')
    have t: "Paragraph ''Tax Treatment: 100% deductible (Other Expenses)'' body_style \<in> set s"
      using blocks_treatment_b [of "''100%''" "''Other Expenses''"]
      by (simp add: s')
    from sd obtain r0 r1 where
      "srows = [r0, r1,
                [PStr ''Tax Category'', PStr ''Office Supplies'', PStr ''Other Expenses'',
                 PStr em_dash],
                [PStr ''Deductibility'', PStr ''100%'', PStr ''100%'', PStr em_dash]]"
      unfolding c' ded summary_data_Inr_iff by blast
    with blocks_summary [of srows] have "\<exists>r0 r1. Table [r0, r1,
                             [PStr ''Tax Category'', PStr ''Office Supplies'',
                              PStr ''Other Expenses'', PStr em_dash],
                             [PStr ''Deductibility'', PStr ''100%'', PStr ''100%'', PStr em_dash]]
                        [200, 150, 150, 150] summary_table_style \<in> set s"
      unfolding s' by blast
    with l t show ?thesis by blast
  qed
  from V D C show ?thesis by blast
qed

theorem missing_fields_defaults_witness:
  "story sample_now bare_receipt bare_receipt [] [] = Inr bare_document \<and>
   (\<exists>r1 r2 r3. bare_document ! 6 = Table [[PStr ''Vendor:'', PStr ''Unknown''], r1, r2, r3]
                                  [150, 450] original_table_style) \<and>
   (\<exists>r0 r2 r3. bare_document ! 6 = Table [r0, [PStr ''Date:'', PStr ''Not specified''], r2, r3]
                                  [150, 450] original_table_style) \<and>
   Paragraph ''<b>Receipt B: Other Expenses (100% Deductible)</b>'' body_style \<in> set bare_document \<and>
   Paragraph ''Tax Treatment: 100% deductible (Other Expenses)'' body_style \<in> set bare_document \<and>
   (\<exists>r0 r1. Table [r0, r1,
                    [PStr ''Tax Category'', PStr ''Office Supplies'', PStr ''Other Expenses'',
                     PStr em_dash],
                    [PStr ''Deductibility'', PStr ''100%'', PStr ''100%'', PStr em_dash]]
               [200, 150, 150, 150] summary_table_style \<in> set bare_document)"
proof -
  have "bare_receipt ''vendor'' = None" "bare_receipt ''receipt_date'' = None"
    "bare_receipt ''suggested_category'' = None"
    by (simp_all add: bare_receipt_def)
  with missing_fields_defaults [OF bare_story] bare_story show ?thesis by blast
qed

text \<open>
  Claim C8. For every input, the label of the Receipt A subsection is the fixed text
  ``Office Supplies (100% Deductible)'', whatever the fields of the original receipt are,
  while the label of Receipt B is derived as ``category (deductibility Deductible)'' from
  the category of the new receipt and the deductibility rule.
\<close>

theorem receipt_labels:
  assumes "story now_text original new original_items new_items = Inr s"
  shows "s ! 10 = Paragraph ''<b>Receipt A: Office Supplies (100% Deductible)</b>'' body_style \<and>
         (\<exists>c d. dict_get new ''suggested_category'' (PStr ''Other Expenses'') = PStr c \<and>
                deductible (PStr c) = Inr d \<and>
                Paragraph (''<b>Receipt B: '' @ c @ '' ('' @ d @ '' Deductible)</b>'') body_style
                  \<in> set s)"
proof -
  from assms obtain rows ta a c tb b srows ft where
    c: "dict_get new ''suggested_category'' (PStr ''Other Expenses'') = PStr c"
    and s: "s = blocks now_text rows ta a c
              (if str_contains ''Meal'' c then ''50%'' else ''100%'') tb b srows ft"
    unfolding story_Inr_iff by blast
  have "deductible (PStr c) = Inr (if str_contains ''Meal'' c then ''50%'' else ''100%'')"
    by (simp add: deductible_Inr_iff)
  moreover have "Paragraph (''<b>Receipt B: '' @ c @ '' (''
        @ (if str_contains ''Meal'' c then ''50%'' else ''100%'') @ '' Deductible)</b>'') body_style
      \<in> set s"
    using blocks_label_b [of c] by (simp add: s)
  ultimately show ?thesis using c by (auto simp: s blocks_nth_10)
qed

theorem receipt_labels_witness:
  "story sample_now sample_original sample_new [] [] = Inr sample_document \<and>
   sample_document ! 10
     = Paragraph ''<b>Receipt A: Office Supplies (100% Deductible)</b>'' body_style \<and>
   Paragraph ''<b>Receipt B: Meals & Entertainment (50% Deductible)</b>'' body_style
     \<in> set sample_document"
proof -
  from receipt_labels [OF sample_story] obtain c d where
    a: "sample_document ! 10
          = Paragraph ''<b>Receipt A: Office Supplies (100% Deductible)</b>'' body_style"
    and c: "dict_get sample_new ''suggested_category'' (PStr ''Other Expenses'') = PStr c"
    and d: "deductible (PStr c) = Inr d"
    and l: "Paragraph (''<b>Receipt B: '' @ c @ '' ('' @ d @ '' Deductible)</b>'') body_style
              \<in> set sample_document"
    by blast
  from c have c': "c = ''Meals & Entertainment''"
    by (simp add: sample_new_def dict_get_def)
  with d have d': "d = ''50%''"
    by (simp add: deductible_Inr_iff)
  from l have "Paragraph ''<b>Receipt B: Meals & Entertainment (50% Deductible)</b>'' body_style
     \<in> set sample_document"
    unfolding c' d' by simp
  with a sample_story show ?thesis by blast
qed

text \<open>
  Claim C9. For every fixed input, two runs of the generator with the same arguments
  build the same document except for the line that carries the generation time: every
  other block is a function of the five arguments alone, and so is the error when the
  call raises one.
\<close>

theorem timestamp_is_the_only_difference:
  "story now2 original new original_items new_items =
     map_sum id (\<lambda>s. s[1 := Paragraph (''Generated: '' @ now2) body_style])
       (story now1 original new original_items new_items)"
proof (cases "story now1 original new original_items new_items")
  case (Inl e)
  have "story now2 original new original_items new_items = Inl e"
  proof (cases "story now2 original new original_items new_items")
    case (Inl e2)
    with \<open>story now1 original new original_items new_items = Inl e\<close>
    show ?thesis
      by (simp add: story_def and_then_def Let_def split: sum.splits)
  next
    case (Inr s2)
    then have "\<exists>s1. story now1 original new original_items new_items = Inr s1"
      unfolding story_Inr_iff by blast
    with Inl show ?thesis by simp
  qed
  with Inl show ?thesis by simp
next
  case (Inr s1)
  then obtain rows ta a c tb b srows ft where
    parts: "original_data original = Inr rows"
      "items_table (items_table_style ''#f3f4f6'' ''#e5e7eb'') original_items = Inr ta"
      "dollars (dict_get original ''total_cents'' (PInt 0)) = Inr a"
      "dict_get new ''suggested_category'' (PStr ''Other Expenses'') = PStr c"
      "items_table (items_table_style ''#fef3c7'' ''#fbbf24'') new_items = Inr tb"
      "dollars (dict_get new ''total_cents'' (PInt 0)) = Inr b"
      "summary_data (dict_get original ''total_cents'' (PInt 0)) new (PStr c)
          (if str_contains ''Meal'' c then ''50%'' else ''100%'') = Inr srows"
      "footer_text original new = Inr ft"
    and s1: "s1 = blocks now1 rows ta a c
              (if str_contains ''Meal'' c then ''50%'' else ''100%'') tb b srows ft"
    unfolding story_Inr_iff by blast
  from parts have "story now2 original new original_items new_items
      = Inr (blocks now2 rows ta a c
              (if str_contains ''Meal'' c then ''50%'' else ''100%'') tb b srows ft)"
    unfolding story_Inr_iff by blast
  also have "blocks now2 rows ta a c
              (if str_contains ''Meal'' c then ''50%'' else ''100%'') tb b srows ft
      = s1[1 := Paragraph (''Generated: '' @ now2) body_style]"
    unfolding s1 by (rule blocks_update_now [symmetric])
  finally show ?thesis by (simp only: Inr map_sum.simps)
qed



end
